theory Spec2Isabelle
  imports Complex_Main "HOL-Library.AList" "HOL-Library.List_Lexorder" "HOL-Library.Char_ord"
    "HOL-Library.Sublist"
begin

section \<open>JavaScript primitives used by the client\<close>

text \<open>
  Sizes, offsets, lengths and status codes are JavaScript numbers holding integral
  values; they are modelled as \<open>int\<close>. All of them stay below \<open>2 ^ 53\<close>, so sums,
  differences and comparisons are exact in the double arithmetic of the source.

  \<open>Math.ceil(a / b)\<close> for an integral \<open>a\<close> and a positive integral \<open>b\<close> is the
  integer quotient rounded towards plus infinity. For the sizes up to \<open>maxObjectSize\<close>
  the rounding of the double quotient cannot change it: a quotient that is not integral
  is at least \<open>1 / 5242880\<close> away from the next integer, and the rounding error is
  below \<open>2 ^ -23\<close>.
\<close>

definition Math_ceil_div :: "int \<Rightarrow> int \<Rightarrow> int" where
  "Math_ceil_div a b = - ((- a) div b)"

text \<open>The decimal rendering of a number inside a template literal.\<close>

definition digit_char :: "nat \<Rightarrow> char" where
  "digit_char d = ''0123456789'' ! (d mod 10)"

fun show_nat :: "nat \<Rightarrow> string" where
  "show_nat n = (if n < 10 then [digit_char n] else show_nat (n div 10) @ [digit_char (n mod 10)])"

declare show_nat.simps [simp del]

definition show_int :: "int \<Rightarrow> string" where
  "show_int i = (if i < 0 then CHR ''-'' # show_nat (nat (- i)) else show_nat (nat i))"

section \<open>Errors\<close>

text \<open>
  The error classes raised by the client (\<open>errors.js\<close> and the built-in ones). An
  error decoded from a response body and a transport failure carry their payload.
\<close>

datatype error =
    TypeError
  | ReferenceError
  | InvalidArgumentError
  | InvalidBucketNameError
  | InvalidObjectNameError
  | InvalidPrefixError
  | InvalidACLError
  | AnonymousRequestError
  | Error string
  | S3Error string
  | NetworkError string

text \<open>
  An operation either throws before returning (\<open>Thrown\<close>), or calls its callback with
  an error (\<open>CbError\<close>) or with a value (\<open>CbOk\<close>).
\<close>

datatype 'a outcome = Thrown error | CbError error | CbOk 'a

section \<open>Size constants and part size\<close>

definition minimumPartSize :: int where
  "minimumPartSize = 5 * 1024 * 1024"

definition maximumPartSize :: int where
  "maximumPartSize = 5 * 1024 * 1024 * 1024"

definition maxObjectSize :: int where
  "maxObjectSize = 5 * 1024 * 1024 * 1024 * 1024"

definition calculatePartSize :: "int \<Rightarrow> error + int" where
  "calculatePartSize sz =
     (if sz > maxObjectSize then Inl TypeError
      else
        let partSize = Math_ceil_div sz 10000;
            partSize = Math_ceil_div partSize minimumPartSize * minimumPartSize
        in Inr partSize)"

text \<open>
  The part size as the specification words it, with the real-valued ceiling:
  \<open>ceil(ceil(S / 10000) / minimumPartSize) * minimumPartSize\<close>.
\<close>

definition partSize_formula :: "int \<Rightarrow> int" where
  "partSize_formula S =
     \<lceil>real_of_int \<lceil>real_of_int S / 10000\<rceil> / real_of_int minimumPartSize\<rceil> * minimumPartSize"

section \<open>Values that may be undefined, and strings\<close>

text \<open>
  A string is truthy when it is not empty, a number when it is not zero. An optional
  argument or property is \<open>None\<close> when it is \<open>undefined\<close>; it is truthy when it is a
  non-empty string. A template literal renders \<open>undefined\<close> as the text
  \<open>undefined\<close>, and the same rendering is the property key an undefined value selects.
\<close>

definition truthy_opt :: "string option \<Rightarrow> bool" where
  "truthy_opt v = (case v of None \<Rightarrow> False | Some s \<Rightarrow> s \<noteq> [])"

definition template :: "string option \<Rightarrow> string" where
  "template v = (case v of None \<Rightarrow> ''undefined'' | Some s \<Rightarrow> s)"

definition truthy_entry :: "string option \<Rightarrow> string option" where
  "truthy_entry v = (case v of None \<Rightarrow> None | Some s \<Rightarrow> if s \<noteq> [] then Some s else None)"

text \<open>\<open>toLowerCase\<close> on header names, which are ASCII.\<close>

definition lower_char :: "char \<Rightarrow> char" where
  "lower_char c =
     (case map_of (zip ''ABCDEFGHIJKLMNOPQRSTUVWXYZ'' ''abcdefghijklmnopqrstuvwxyz'') c of
        Some l \<Rightarrow> l
      | None \<Rightarrow> c)"

definition toLowerCase :: "string \<Rightarrow> string" where
  "toLowerCase s = map lower_char s"

section \<open>The client, its requests and its collaborators\<close>

type_synonym headers = "(string \<times> string) list"

text \<open>The options object handed to \<open>makeRequest\<close> and \<open>makeRequestStream\<close>.\<close>

record request_spec =
  req_method :: string
  bucketName :: "string option"
  objectName :: "string option"
  query :: "string option"
  headers :: "headers option"

text \<open>
  The options object handed to \<open>transport.request\<close>. A headers object that is absent
  is the empty list; a port that was never assigned is \<open>None\<close>.
\<close>

record req_options =
  ro_method :: string
  ro_host :: string
  ro_port :: "int option"
  ro_protocol :: string
  ro_path :: string
  ro_headers :: headers

text \<open>
  A response: its status, its headers and its body stream, which delivers \<open>body\<close> and
  then either ends or fails with \<open>bodyError\<close>.
\<close>

record response =
  statusCode :: int
  resp_headers :: headers
  body :: string
  bodyError :: "error option"

text \<open>One grant of an access control list, as the ACL decoder emits it.\<close>

record grant =
  grantee_uri :: string
  permission :: string

text \<open>One page of an object listing, as the listing decoder emits it.\<close>

record list_page =
  objects :: "string list"
  isTruncated :: bool
  nextMarker :: string

text \<open>
  The region cache is a plain object, created as \<open>{}\<close>: reading a key that is not an
  own property of it yields the member of \<open>Object.prototype\<close> of that name, when there
  is one. Own properties are only ever assigned region strings. So the value read for a
  bucket, and passed on as the region, is a region string or such an inherited member (a
  function, or the prototype object itself for \<open>__proto__\<close>), and the signer receives
  either.
\<close>

datatype region_value = RegionName string | PrototypeMember string

definition object_prototype_keys :: "string list" where
  "object_prototype_keys =
     [''constructor'', ''hasOwnProperty'', ''isPrototypeOf'', ''propertyIsEnumerable'',
      ''toLocaleString'', ''toString'', ''valueOf'', ''__proto__'', ''__defineGetter__'',
      ''__defineSetter__'', ''__lookupGetter__'', ''__lookupSetter__'']"

text \<open>One condition of a POST policy: an operator with two operands, or a length range.\<close>

datatype condition =
    Cond string string string
  | ContentLengthRange int int

text \<open>
  The helpers, the signer and the response decoders live in \<open>helpers.js\<close>,
  \<open>signing.js\<close> and \<open>transformers.js\<close>, and the hashes, the clock, the XML writer
  and the path utilities in external packages. None of them is part of the client's
  source file, so they are parameters of the model: every definition below takes them
  in an \<open>env\<close>, and every theorem holds for all of them. A decoder is a function of the
  response it is piped from: it fails with an error or emits its data.
\<close>

record env =
  isValidBucketName :: "string option \<Rightarrow> bool"
  isValidObjectName :: "string \<Rightarrow> bool"
  isValidPrefix :: "string \<Rightarrow> bool"
  isValidACL :: "string \<Rightarrow> bool"
  uriEscape :: "string \<Rightarrow> string"
  uriResourceEscape :: "string \<Rightarrow> string"
  signV4 :: "req_options \<Rightarrow> string \<Rightarrow> string \<Rightarrow> region_value \<Rightarrow> string"
  postPresignSignatureV4 :: "region_value \<Rightarrow> string \<Rightarrow> string \<Rightarrow> string \<Rightarrow> string"
  getScope :: "region_value \<Rightarrow> string \<Rightarrow> string"
  sha256_hex :: "string \<Rightarrow> string"
  md5_base64 :: "string \<Rightarrow> string"
  getHashSummer :: "bool \<Rightarrow> string \<Rightarrow> string \<times> string"
  utcNow :: string
  moment_format :: "int \<Rightarrow> string \<Rightarrow> string"
  json_base64 :: "string option \<times> condition list \<Rightarrow> string"
  xml_escape :: "string \<Rightarrow> string"
  path_dirname :: "string \<Rightarrow> string"
  mkdirp :: "string \<Rightarrow> error option"
  getErrorTransformer :: "response \<Rightarrow> error"
  getBucketRegionTransformer :: "response \<Rightarrow> error + string list"
  getAclTransformer :: "response \<Rightarrow> error + grant list"
  getListObjectsTransformer :: "response \<Rightarrow> error + list_page"

text \<open>
  The transport answers a request and the payload streamed into it with a response, or
  fails with a socket error.
\<close>

type_synonym transport = "req_options \<Rightarrow> string \<Rightarrow> error + response"

text \<open>
  What an observer of the client sees, in order: the requests opened on the transport
  (with the payload streamed into each), the updates of the region cache, and the
  calls of the callback given to \<open>makeRequestStream\<close>.
\<close>

datatype event =
    Request req_options string
  | CacheInsert string string
  | CacheDelete string
  | Callback "error option"

text \<open>
  The client after construction. \<open>regionMap\<close> is its only mutable field, given by
  its own properties (assignment adds one, \<open>delete\<close> removes one); \<open>trace\<close> is
  not a field of the source object but the record of what the client has done so far.
  Tracing to a log stream is off by default and is not modelled.
\<close>

record client =
  host :: string
  port :: int
  protocol :: string
  accessKey :: string
  secretKey :: string
  anonymous :: bool
  virtualHostStyle :: bool
  regionMap :: "string \<rightharpoonup> string"
  trace :: "event list"

definition log :: "event \<Rightarrow> client \<Rightarrow> client" where
  "log ev c = c\<lparr>trace := trace c @ [ev]\<rparr>"

text \<open>The requests of a trace, in order, and their paths and payloads.\<close>

fun requests :: "event list \<Rightarrow> (req_options \<times> string) list" where
  "requests [] = []"
| "requests (Request ro payload # evs) = (ro, payload) # requests evs"
| "requests (ev # evs) = requests evs"

definition request_paths :: "event list \<Rightarrow> string list" where
  "request_paths evs = map (\<lambda>rq. ro_path (fst rq)) (requests evs)"

definition request_payloads :: "event list \<Rightarrow> string list" where
  "request_payloads evs = map snd (requests evs)"

text \<open>
  \<open>same_config c c1\<close>: the two clients agree on every field set at construction.
  \<open>new_events c c1\<close>: what \<open>c1\<close> has done after the state \<open>c\<close>.
\<close>

definition same_config :: "client \<Rightarrow> client \<Rightarrow> bool" where
  "same_config c c1 =
     (host c1 = host c \<and> port c1 = port c \<and> protocol c1 = protocol c \<and>
      accessKey c1 = accessKey c \<and> secretKey c1 = secretKey c \<and>
      anonymous c1 = anonymous c \<and> virtualHostStyle c1 = virtualHostStyle c)"

definition new_events :: "client \<Rightarrow> client \<Rightarrow> event list" where
  "new_events c c1 = drop (length (trace c)) (trace c1)"

subsection \<open>getRequestOptions\<close>

definition getRequestOptions :: "env \<Rightarrow> client \<Rightarrow> request_spec \<Rightarrow> req_options" where
  "getRequestOptions env c opts =
     (let obj = (case objectName opts of
                   None \<Rightarrow> None
                 | Some s \<Rightarrow> if s \<noteq> [] then Some (uriResourceEscape env s) else Some s);
          rport = (if port c \<noteq> 0 then Some (port c) else None);
          rhost = (if \<not> virtualHostStyle c \<or> \<not> truthy_opt (bucketName opts) then host c
                   else if truthy_opt (bucketName opts)
                     then template (bucketName opts) @ ''.'' @ host c
                     else host c);
          path0 = (if \<not> virtualHostStyle c \<or> \<not> truthy_opt (bucketName opts) then
                     (if truthy_opt obj then ''/'' @ template (bucketName opts) @ ''/'' @ template obj
                      else if truthy_opt (bucketName opts) then ''/'' @ template (bucketName opts)
                      else ''/'')
                   else
                     (if truthy_opt obj then ''/'' @ template obj else ''/''));
          path1 = (if truthy_opt (query opts) then path0 @ ''?'' @ template (query opts) else path0);
          hostHeader =
            (if (protocol c = ''http:'' \<and> rport \<noteq> Some 80) \<or>
                (protocol c = ''https:'' \<and> rport \<noteq> Some 443)
             then rhost @ '':'' @ (case rport of None \<Rightarrow> ''undefined'' | Some p \<Rightarrow> show_int p)
             else rhost);
          hs = (case headers opts of
                  None \<Rightarrow> [(''host'', hostHeader)]
                | Some h \<Rightarrow> fold (\<lambda>(k, v). AList.update (toLowerCase k) v) h [(''host'', hostHeader)])
      in \<lparr>ro_method = req_method opts, ro_host = rhost, ro_port = rport, ro_protocol = protocol c,
          ro_path = path1, ro_headers = hs\<rparr>)"

subsection \<open>getBucketRegion\<close>

text \<open>
  The request options \<open>getBucketRegion\<close> builds for the lookup: path style on the
  configured host, and, unless the client is anonymous, stamped and signed for the region
  \<open>us-east-1\<close>.
\<close>

definition getBucketRegion_request :: "env \<Rightarrow> client \<Rightarrow> string option \<Rightarrow> req_options" where
  "getBucketRegion_request env c bucket =
     (let hostHeader =
            (if (protocol c = ''http:'' \<and> port c \<noteq> 80) \<or>
                (protocol c = ''https:'' \<and> port c \<noteq> 443)
             then host c @ '':'' @ show_int (port c)
             else host c);
          bare = \<lparr>ro_method = ''GET'', ro_host = host c, ro_port = Some (port c),
                  ro_protocol = protocol c, ro_path = ''/'' @ template bucket @ ''?location'',
                  ro_headers = []\<rparr>
      in if \<not> anonymous c then
           (let hs = [(''host'', hostHeader),
                      (''x-amz-date'', utcNow env @ ''Z''),
                      (''x-amz-content-sha256'', sha256_hex env [])];
                stamped = bare\<lparr>ro_headers := hs\<rparr>
            in stamped\<lparr>ro_headers := hs @
                 [(''authorization'',
                   signV4 env stamped (accessKey c) (secretKey c) (RegionName ''us-east-1''))]\<rparr>)
         else bare)"

text \<open>
  \<open>this.regionMap[key]\<close> when it is truthy: an own property that is a non-empty
  string, or, when the key is no own property, the inherited member of that name. An own
  property shadows the inherited member, also when it is the empty string.
\<close>

definition cached_region :: "client \<Rightarrow> string \<Rightarrow> region_value option" where
  "cached_region c k =
     (case regionMap c k of
        Some r \<Rightarrow> if r \<noteq> [] then Some (RegionName r) else None
      | None \<Rightarrow> if k \<in> set object_prototype_keys then Some (PrototypeMember k) else None)"

definition getBucketRegion ::
  "env \<Rightarrow> transport \<Rightarrow> client \<Rightarrow> string option \<Rightarrow> region_value outcome \<times> client" where
  "getBucketRegion env srv c bucket =
     (if \<not> isValidBucketName env bucket then (Thrown InvalidBucketNameError, c)
      else case cached_region c (template bucket) of
        Some region \<Rightarrow> (CbOk region, c)
      | None \<Rightarrow>
         (let reqOptions = getBucketRegion_request env c bucket;
              c1 = log (Request reqOptions []) c
          in case srv reqOptions [] of
               Inl e \<Rightarrow> (CbError e, c1)
             | Inr resp \<Rightarrow>
                 if 200 \<noteq> statusCode resp then (CbError (getErrorTransformer env resp), c1)
                 else (case getBucketRegionTransformer env resp of
                         Inl e \<Rightarrow> (CbError e, c1)
                       | Inr datas \<Rightarrow>
                           (let region = fold (\<lambda>d r. if d \<noteq> [] then d else r) datas ''us-east-1''
                            in (CbOk (RegionName region),
                                log (CacheInsert (template bucket) region)
                                  (c1\<lparr>regionMap := (regionMap c1)(template bucket \<mapsto> region)\<rparr>))))))"

subsection \<open>makeRequestStream and makeRequest\<close>

text \<open>
  The block that stamps and signs request options unless the client is anonymous;
  \<open>makeRequestStream\<close> and \<open>makeBucket\<close> both contain it. The signature is computed
  from the options that already carry the date and the payload hash.
\<close>

definition stamp_request :: "env \<Rightarrow> req_options \<Rightarrow> string \<Rightarrow> req_options" where
  "stamp_request env reqOptions sha256sum =
     reqOptions\<lparr>ro_headers :=
       AList.update ''x-amz-content-sha256'' sha256sum
         (AList.update ''x-amz-date'' (utcNow env @ ''Z'') (ro_headers reqOptions))\<rparr>"

definition sign_request ::
  "env \<Rightarrow> client \<Rightarrow> req_options \<Rightarrow> string \<Rightarrow> region_value \<Rightarrow> req_options" where
  "sign_request env c reqOptions sha256sum region =
     (if \<not> anonymous c then
        (let stamped = stamp_request env reqOptions sha256sum
         in stamped\<lparr>ro_headers := AList.update ''authorization''
              (signV4 env stamped (accessKey c) (secretKey c) region) (ro_headers stamped)\<rparr>)
      else reqOptions)"

text \<open>
  The closure \<open>_makeRequest\<close> of \<open>makeRequestStream\<close>, called once the region is
  known: it signs the request, opens it on the transport, streams the payload and
  compares the status of the response with the expected one.
\<close>

definition inner_makeRequest ::
  "env \<Rightarrow> transport \<Rightarrow> client \<Rightarrow> request_spec \<Rightarrow> req_options \<Rightarrow> string \<Rightarrow> string \<Rightarrow> int
   \<Rightarrow> region_value \<Rightarrow> response outcome \<times> client" where
  "inner_makeRequest env srv c options reqOptions stream sha256sum expected region =
     (let signedOptions = sign_request env c reqOptions sha256sum region;
          c1 = log (Request signedOptions stream) c
      in case srv signedOptions stream of
           Inl e \<Rightarrow> (CbError e, log (Callback (Some e)) c1)
         | Inr resp \<Rightarrow>
             if expected \<noteq> statusCode resp then
               (let c2 = log (CacheDelete (template (bucketName options)))
                           (c1\<lparr>regionMap := (regionMap c1)(template (bucketName options) := None)\<rparr>);
                    e = getErrorTransformer env resp
                in (CbError e, log (Callback (Some e)) c2))
             else (CbOk resp, log (Callback None) c1))"

definition makeRequestStream ::
  "env \<Rightarrow> transport \<Rightarrow> client \<Rightarrow> request_spec \<Rightarrow> string \<Rightarrow> string \<Rightarrow> int
   \<Rightarrow> response outcome \<times> client" where
  "makeRequestStream env srv c options stream sha256sum expected =
     (if sha256sum = [] \<and> \<not> anonymous c then (Thrown InvalidArgumentError, c)
      else if length sha256sum \<noteq> 64 \<and> \<not> anonymous c then (Thrown InvalidArgumentError, c)
      else
        (let reqOptions = getRequestOptions env c options
         in if \<not> truthy_opt (bucketName options)
            then inner_makeRequest env srv c options reqOptions stream sha256sum expected
                   (RegionName ''us-east-1'')
            else (case getBucketRegion env srv c (bucketName options) of
                    (Thrown e, c1) \<Rightarrow> (Thrown e, c1)
                  | (CbError e, c1) \<Rightarrow> (CbError e, log (Callback (Some e)) c1)
                  | (CbOk region, c1) \<Rightarrow>
                      inner_makeRequest env srv c1 options reqOptions stream sha256sum expected region)))"

definition makeRequest ::
  "env \<Rightarrow> transport \<Rightarrow> client \<Rightarrow> request_spec \<Rightarrow> string \<Rightarrow> int \<Rightarrow> response outcome \<times> client" where
  "makeRequest env srv c options payload expected =
     (let hs = (case headers options of None \<Rightarrow> [] | Some h \<Rightarrow> h);
          options1 = options\<lparr>headers :=
                       Some (AList.update ''content-length'' (show_int (int (length payload))) hs)\<rparr>;
          sha256sum = (if \<not> anonymous c then sha256_hex env payload else [])
      in makeRequestStream env srv c options1 payload sha256sum expected)"

section \<open>Bucket operations\<close>

subsection \<open>makeBucket\<close>

text \<open>
  The body the XML writer renders for
  \<open>{CreateBucketConfiguration: [{_attr: {xmlns: ...}}, {LocationConstraint: region}]}\<close>.
\<close>

definition createBucketConfiguration_xml :: "env \<Rightarrow> string \<Rightarrow> string" where
  "createBucketConfiguration_xml env region =
     ''<CreateBucketConfiguration xmlns='' @ [CHR 0x22] @
     ''http://s3.amazonaws.com/doc/2006-03-01/'' @ [CHR 0x22] @ ''>'' @
     ''<LocationConstraint>'' @ xml_escape env region @ ''</LocationConstraint>'' @
     ''</CreateBucketConfiguration>''"

text \<open>
  The payload and the signed request options \<open>makeBucket\<close> builds before it opens the
  request.
\<close>

definition makeBucket_payload :: "env \<Rightarrow> string \<Rightarrow> string" where
  "makeBucket_payload env region =
     (if region \<noteq> [] then createBucketConfiguration_xml env region else [])"

definition makeBucket_reqOptions :: "env \<Rightarrow> client \<Rightarrow> string \<Rightarrow> string \<Rightarrow> string \<Rightarrow> req_options" where
  "makeBucket_reqOptions env c bucket acl payload =
     sign_request env c
       (getRequestOptions env c
          \<lparr>req_method = ''PUT'', bucketName = Some bucket, objectName = None, query = None,
           headers = Some [(''x-amz-acl'', acl)]\<rparr>)
       (sha256_hex env payload) (RegionName ''us-east-1'')"

definition makeBucket ::
  "env \<Rightarrow> transport \<Rightarrow> client \<Rightarrow> string \<Rightarrow> string \<Rightarrow> string \<Rightarrow> unit outcome \<times> client" where
  "makeBucket env srv c bucket acl0 region =
     (if \<not> isValidBucketName env (Some bucket) then (Thrown InvalidBucketNameError, c)
      else
        (let acl = (if acl0 = [] then ''private'' else acl0)
         in if \<not> isValidACL env acl then (Thrown InvalidACLError, c)
            else
              (let payload = makeBucket_payload env region;
                   reqOptions = makeBucket_reqOptions env c bucket acl payload;
                   c1 = log (Request reqOptions payload) c
               in case srv reqOptions payload of
                    Inl e \<Rightarrow> (CbError e, c1)
                  | Inr resp \<Rightarrow>
                      if 200 \<noteq> statusCode resp then (CbError (getErrorTransformer env resp), c1)
                      else (CbOk (), c1))))"

subsection \<open>removeBucket\<close>

definition removeBucket ::
  "env \<Rightarrow> transport \<Rightarrow> client \<Rightarrow> string \<Rightarrow> unit outcome \<times> client" where
  "removeBucket env srv c bucket =
     (if \<not> isValidBucketName env (Some bucket) then (Thrown InvalidBucketNameError, c)
      else case makeRequest env srv c
                  \<lparr>req_method = ''DELETE'', bucketName = Some bucket, objectName = None,
                   query = None, headers = None\<rparr> [] 204 of
             (Thrown e, c1) \<Rightarrow> (Thrown e, c1)
           | (CbError e, c1) \<Rightarrow> (CbError e, c1)
           | (CbOk resp, c1) \<Rightarrow>
               (CbOk (), log (CacheDelete bucket) (c1\<lparr>regionMap := (regionMap c1)(bucket := None)\<rparr>)))"

subsection \<open>getBucketACL\<close>

text \<open>The accumulator of the reduction over the grants; a flag never set is falsy.\<close>

record perm =
  publicRead :: bool
  publicWrite :: bool
  authenticatedRead :: bool
  authenticatedWrite :: bool

definition perm_empty :: perm where
  "perm_empty = \<lparr>publicRead = False, publicWrite = False,
                 authenticatedRead = False, authenticatedWrite = False\<rparr>"

definition acl_step :: "perm \<Rightarrow> grant \<Rightarrow> perm" where
  "acl_step acc g =
     (if grantee_uri g = ''http://acs.amazonaws.com/groups/global/AllUsers'' then
        (if permission g = ''READ'' then acc\<lparr>publicRead := True\<rparr>
         else if permission g = ''WRITE'' then acc\<lparr>publicWrite := True\<rparr>
         else acc)
      else if grantee_uri g = ''http://acs.amazonaws.com/groups/global/AuthenticatedUsers'' then
        (if permission g = ''READ'' then acc\<lparr>authenticatedRead := True\<rparr>
         else if permission g = ''WRITE'' then acc\<lparr>authenticatedWrite := True\<rparr>
         else acc)
      else acc)"

definition cannedACL_of :: "perm \<Rightarrow> string" where
  "cannedACL_of p =
     (if publicRead p \<and> publicWrite p \<and> \<not> authenticatedRead p \<and> \<not> authenticatedWrite p
        then ''public-read-write''
      else if publicRead p \<and> \<not> publicWrite p \<and> \<not> authenticatedRead p \<and> \<not> authenticatedWrite p
        then ''public-read''
      else if \<not> publicRead p \<and> \<not> publicWrite p \<and> authenticatedRead p \<and> \<not> authenticatedWrite p
        then ''authenticated-read''
      else if \<not> publicRead p \<and> \<not> publicWrite p \<and> \<not> authenticatedRead p \<and> \<not> authenticatedWrite p
        then ''private''
      else ''unsupported-acl'')"

definition getBucketACL ::
  "env \<Rightarrow> transport \<Rightarrow> client \<Rightarrow> string \<Rightarrow> string outcome \<times> client" where
  "getBucketACL env srv c bucket =
     (if \<not> isValidBucketName env (Some bucket) then (Thrown InvalidBucketNameError, c)
      else case makeRequest env srv c
                  \<lparr>req_method = ''GET'', bucketName = Some bucket, objectName = None,
                   query = Some ''acl'', headers = None\<rparr> [] 200 of
             (Thrown e, c1) \<Rightarrow> (Thrown e, c1)
           | (CbError e, c1) \<Rightarrow> (CbError e, c1)
           | (CbOk resp, c1) \<Rightarrow>
               (case getAclTransformer env resp of
                  Inl e \<Rightarrow> (CbError e, c1)
                | Inr acl \<Rightarrow> (CbOk (cannedACL_of (foldl acl_step perm_empty acl)), c1)))"

text \<open>
  The reduction table as the specification gives it: the four flags, and the canned
  ACL of each row.
\<close>

definition acl_table :: "bool \<Rightarrow> bool \<Rightarrow> bool \<Rightarrow> bool \<Rightarrow> string" where
  "acl_table pr pw ar aw =
     (if (pr, pw, ar, aw) = (True, True, False, False) then ''public-read-write''
      else if (pr, pw, ar, aw) = (True, False, False, False) then ''public-read''
      else if (pr, pw, ar, aw) = (False, False, True, False) then ''authenticated-read''
      else if (pr, pw, ar, aw) = (False, False, False, False) then ''private''
      else ''unsupported-acl'')"

definition has_grant :: "grant list \<Rightarrow> string \<Rightarrow> string \<Rightarrow> bool" where
  "has_grant acl uri p = (\<exists>g \<in> set acl. grantee_uri g = uri \<and> permission g = p)"

section \<open>Object operations\<close>

subsection \<open>getPartialObject\<close>

text \<open>The \<open>range\<close> string \<open>getPartialObject\<close> computes from the offset and the length.\<close>

definition getPartialObject_range :: "int \<Rightarrow> int \<Rightarrow> string" where
  "getPartialObject_range offset len =
     (if offset \<noteq> 0 \<or> len \<noteq> 0 then
        (let range0 = (if offset \<noteq> 0 then ''bytes='' @ show_int offset @ ''-'' else ''bytes=0-'');
             offset1 = (if offset \<noteq> 0 then offset else 0)
         in if len \<noteq> 0 then range0 @ show_int ((len + offset1) - 1) else range0)
      else [])"

definition getPartialObject ::
  "env \<Rightarrow> transport \<Rightarrow> client \<Rightarrow> string \<Rightarrow> string \<Rightarrow> int \<Rightarrow> int \<Rightarrow> response outcome \<times> client" where
  "getPartialObject env srv c bucket obj offset len =
     (if \<not> isValidBucketName env (Some bucket) then (Thrown InvalidBucketNameError, c)
      else if \<not> isValidObjectName env obj then (Thrown InvalidObjectNameError, c)
      else
        (let range = getPartialObject_range offset len;
             hs = (if range \<noteq> [] then [(''range'', range)] else []);
             expectedStatus = (if range \<noteq> [] then 206 else 200)
         in makeRequest env srv c
              \<lparr>req_method = ''GET'', bucketName = Some bucket, objectName = Some obj, query = None,
               headers = Some hs\<rparr> [] expectedStatus))"

subsection \<open>statObject\<close>

text \<open>
  The unary plus on a header value. A missing header is \<open>undefined\<close> and converts to
  \<open>NaN\<close>, which is \<open>None\<close>; the empty string converts to 0 and a string of decimal
  digits to its value. Any other text is taken as \<open>NaN\<close>: the signs, blanks,
  exponents and radix prefixes JavaScript also reads do not occur in a
  \<open>Content-Length\<close> header.
\<close>

definition digit_value :: "char \<Rightarrow> int option" where
  "digit_value ch = map_of (zip ''0123456789'' [0, 1, 2, 3, 4, 5, 6, 7, 8, 9]) ch"

definition to_number :: "string option \<Rightarrow> int option" where
  "to_number v =
     (case v of
        None \<Rightarrow> None
      | Some s \<Rightarrow>
          if list_all (\<lambda>ch. digit_value ch \<noteq> None) s
          then Some (foldl (\<lambda>acc ch. 10 * acc + (case digit_value ch of Some d \<Rightarrow> d | None \<Rightarrow> 0)) 0 s)
          else None)"

text \<open>\<open>etag.replace(/^"/g, '').replace(/"$/g, '')\<close>\<close>

definition strip_quotes :: "string \<Rightarrow> string" where
  "strip_quotes s =
     (let s1 = (case s of [] \<Rightarrow> [] | ch # rest \<Rightarrow> if ch = CHR 0x22 then rest else s)
      in if s1 \<noteq> [] \<and> last s1 = CHR 0x22 then butlast s1 else s1)"

record object_stat =
  stat_size :: "int option"
  stat_etag :: string
  stat_contentType :: "string option"
  stat_lastModified :: "string option"

definition statObject ::
  "env \<Rightarrow> transport \<Rightarrow> client \<Rightarrow> string \<Rightarrow> string \<Rightarrow> object_stat outcome \<times> client" where
  "statObject env srv c bucket obj =
     (if \<not> isValidBucketName env (Some bucket) then (Thrown InvalidBucketNameError, c)
      else if \<not> isValidObjectName env obj then (Thrown InvalidObjectNameError, c)
      else case makeRequest env srv c
                  \<lparr>req_method = ''HEAD'', bucketName = Some bucket, objectName = Some obj,
                   query = None, headers = None\<rparr> [] 200 of
             (Thrown e, c1) \<Rightarrow> (Thrown e, c1)
           | (CbError e, c1) \<Rightarrow> (CbError e, c1)
           | (CbOk resp, c1) \<Rightarrow>
               (case map_of (resp_headers resp) ''etag'' of
                  None \<Rightarrow> (Thrown TypeError, c1)
                | Some etag \<Rightarrow>
                    (CbOk \<lparr>stat_size = to_number (map_of (resp_headers resp) ''content-length''),
                           stat_etag = strip_quotes etag,
                           stat_contentType = map_of (resp_headers resp) ''content-type'',
                           stat_lastModified = map_of (resp_headers resp) ''last-modified''\<rparr>, c1)))"

subsection \<open>fGetObject\<close>

text \<open>
  The files on disk: a path has contents or does not exist. \<open>fs.stat\<close> fails on a
  missing path and otherwise reports the length of the contents. \<open>fs.rename\<close> throws
  when its source path is \<open>undefined\<close>, fails when the source does not exist, and
  otherwise moves the contents to the destination. Directories are not modelled.
\<close>

type_synonym fs = "string \<rightharpoonup> string"

definition fs_rename :: "fs \<Rightarrow> string option \<Rightarrow> string \<Rightarrow> unit outcome \<times> fs" where
  "fs_rename files src dst =
     (case src of
        None \<Rightarrow> (Thrown TypeError, files)
      | Some p \<Rightarrow>
          (case files p of
             None \<Rightarrow> (CbError (Error ''ENOENT''), files)
           | Some d \<Rightarrow> (CbOk (), (files(p := None))(dst \<mapsto> d))))"

text \<open>
  How the waterfall of \<open>fGetObject\<close> ends: an exception escapes, or the wrapper
  \<open>rename\<close> is called, either directly or as the final callback of the waterfall with
  the error of the failed step or with none. \<open>rename\<close> takes no argument, so what the
  waterfall passes to it is recorded here and used nowhere.
\<close>

datatype waterfall_end = Escaped error | Rename "error option"

text \<open>
  The third to sixth step of the waterfall: choose and open the part file, fetch the
  missing bytes, copy them into the part file, and compare the sizes. The flag
  \<open>has_cb\<close> tells whether the third step received its callback: a step that ends with
  \<open>cb()\<close> passes no result on, and the next step then receives the callback as its
  first argument and \<open>undefined\<close> as its second, which \<open>getPartialObject\<close> rejects with
  a \<open>TypeError\<close> after it has validated the names.
\<close>

definition fGetObject_part ::
  "env \<Rightarrow> transport \<Rightarrow> client \<Rightarrow> fs \<Rightarrow> string \<Rightarrow> string \<Rightarrow> string \<Rightarrow> object_stat \<Rightarrow> bool
   \<Rightarrow> waterfall_end \<times> string \<times> client \<times> fs" where
  "fGetObject_part env srv c files bucket obj filePath objStat has_cb =
     (let partFile = filePath @ ''.'' @ stat_etag objStat @ ''.part.minio''
      in case files partFile of
           Some d \<Rightarrow>
             if stat_size objStat = Some (int (length d)) then (Rename None, partFile, c, files)
             else
               (if \<not> isValidBucketName env (Some bucket) then
                  (Escaped InvalidBucketNameError, partFile, c, files)
                else if \<not> isValidObjectName env obj then
                  (Escaped InvalidObjectNameError, partFile, c, files)
                else if \<not> has_cb then (Escaped TypeError, partFile, c, files)
                else case getPartialObject env srv c bucket obj (int (length d)) 0 of
                       (Thrown e, c1) \<Rightarrow> (Escaped e, partFile, c1, files)
                     | (CbError e, c1) \<Rightarrow> (Rename (Some e), partFile, c1, files)
                     | (CbOk resp, c1) \<Rightarrow>
                         (let written = d @ body resp;
                              files1 = files(partFile \<mapsto> written)
                          in case bodyError resp of
                               Some e \<Rightarrow> (Rename (Some e), partFile, c1, files1)
                             | None \<Rightarrow>
                                 if Some (int (length written)) = stat_size objStat
                                 then (Rename None, partFile, c1, files1)
                                 else (Rename (Some (Error
                                         ''Size mismatch between downloaded file and the object'')),
                                       partFile, c1, files1)))
         | None \<Rightarrow>
             (let files0 = files(partFile \<mapsto> [])
              in if \<not> isValidBucketName env (Some bucket) then
                   (Escaped InvalidBucketNameError, partFile, c, files0)
                 else if \<not> isValidObjectName env obj then
                   (Escaped InvalidObjectNameError, partFile, c, files0)
                 else if \<not> has_cb then (Escaped TypeError, partFile, c, files0)
                 else case getPartialObject env srv c bucket obj 0 0 of
                        (Thrown e, c1) \<Rightarrow> (Escaped e, partFile, c1, files0)
                      | (CbError e, c1) \<Rightarrow> (Rename (Some e), partFile, c1, files0)
                      | (CbOk resp, c1) \<Rightarrow>
                          (let written = body resp;
                               files1 = files0(partFile \<mapsto> written)
                           in case bodyError resp of
                                Some e \<Rightarrow> (Rename (Some e), partFile, c1, files1)
                              | None \<Rightarrow>
                                  if Some (int (length written)) = stat_size objStat
                                  then (Rename None, partFile, c1, files1)
                                  else (Rename (Some (Error
                                          ''Size mismatch between downloaded file and the object'')),
                                        partFile, c1, files1))))"

definition fGetObject ::
  "env \<Rightarrow> transport \<Rightarrow> client \<Rightarrow> fs \<Rightarrow> string \<Rightarrow> string \<Rightarrow> string \<Rightarrow> unit outcome \<times> client \<times> fs" where
  "fGetObject env srv c files bucket obj filePath =
     (if \<not> isValidBucketName env (Some bucket) then (Thrown InvalidBucketNameError, c, files)
      else if \<not> isValidObjectName env obj then (Thrown InvalidObjectNameError, c, files)
      else case statObject env srv c bucket obj of
             (Thrown e, c1) \<Rightarrow> (Thrown e, c1, files)
           | (CbError e, c1) \<Rightarrow>
               (case fs_rename files None filePath of (r, files1) \<Rightarrow> (r, c1, files1))
           | (CbOk objStat, c1) \<Rightarrow>
               (let dir = path_dirname env filePath;
                    made = (if dir = ''.'' then None else mkdirp env dir)
                in case made of
                     Some e \<Rightarrow>
                       (case fs_rename files None filePath of (r, files1) \<Rightarrow> (r, c1, files1))
                   | None \<Rightarrow>
                       (case fGetObject_part env srv c1 files bucket obj filePath objStat (dir \<noteq> ''.'') of
                          (Escaped e, partFile, c2, files2) \<Rightarrow> (Thrown e, c2, files2)
                        | (Rename passed, partFile, c2, files2) \<Rightarrow>
                            (case fs_rename files2 (Some partFile) filePath of
                               (r, files3) \<Rightarrow> (r, c2, files3)))))"

section \<open>Uploads\<close>

text \<open>
  A readable stream delivers its data and then ends or fails. \<open>String.trim\<close> leaves
  nothing of a string exactly when all its characters are white space.
\<close>

record readable =
  data :: string
  failure :: "error option"

definition is_blank :: "string \<Rightarrow> bool" where
  "is_blank s = list_all (\<lambda>ch. ch \<in> set [CHR 0x20, CHR 0x09, CHR 0x0A, CHR 0x0B, CHR 0x0C, CHR 0x0D]) s"

subsection \<open>getUploader\<close>

text \<open>
  The closure \<open>upload\<close> of \<open>getUploader\<close> and the two uploaders built on it. The
  uploaded stream is the payload handed to \<open>makeRequestStream\<close>.
\<close>

definition upload ::
  "env \<Rightarrow> transport \<Rightarrow> client \<Rightarrow> string \<Rightarrow> string \<Rightarrow> string \<Rightarrow> string \<Rightarrow> string \<Rightarrow> int \<Rightarrow> string \<Rightarrow> string
   \<Rightarrow> string option outcome \<times> client" where
  "upload env srv c bucket obj contentType qry stream len sha256sum md5sum =
     (case makeRequestStream env srv c
             \<lparr>req_method = ''PUT'', bucketName = Some bucket, objectName = Some obj, query = Some qry,
              headers = Some [(''Content-Length'', show_int len),
                              (''Content-Type'', contentType),
                              (''Content-MD5'', md5sum)]\<rparr>
             stream sha256sum 200 of
        (Thrown e, c1) \<Rightarrow> (Thrown e, c1)
      | (CbError e, c1) \<Rightarrow> (CbError e, c1)
      | (CbOk resp, c1) \<Rightarrow>
          (CbOk (case truthy_entry (map_of (resp_headers resp) ''etag'') of
                   None \<Rightarrow> map_of (resp_headers resp) ''etag''
                 | Some etag \<Rightarrow> Some (strip_quotes etag)), c1))"

definition simpleUploader ::
  "env \<Rightarrow> transport \<Rightarrow> client \<Rightarrow> string \<Rightarrow> string \<Rightarrow> string \<Rightarrow> string \<Rightarrow> int \<Rightarrow> string \<Rightarrow> string
   \<Rightarrow> string option outcome \<times> client" where
  "simpleUploader env srv c bucket obj contentType0 stream len sha256sum md5sum =
     (if \<not> isValidBucketName env (Some bucket) then (Thrown InvalidBucketNameError, c)
      else if \<not> isValidObjectName env obj then (Thrown InvalidObjectNameError, c)
      else
        (let contentType = (if contentType0 = [] then ''application/octet-stream'' else contentType0)
         in upload env srv c bucket obj contentType [] stream len sha256sum md5sum))"

definition multipartUploader ::
  "env \<Rightarrow> transport \<Rightarrow> client \<Rightarrow> string \<Rightarrow> string \<Rightarrow> string \<Rightarrow> string \<Rightarrow> int \<Rightarrow> string \<Rightarrow> int \<Rightarrow> string
   \<Rightarrow> string \<Rightarrow> string option outcome \<times> client" where
  "multipartUploader env srv c bucket obj contentType0 uploadId partNumber stream len sha256sum md5sum =
     (if \<not> isValidBucketName env (Some bucket) then (Thrown InvalidBucketNameError, c)
      else if \<not> isValidObjectName env obj then (Thrown InvalidObjectNameError, c)
      else
        (let contentType = (if contentType0 = [] then ''application/octet-stream'' else contentType0)
         in if uploadId = [] then (Thrown InvalidArgumentError, c)
            else if partNumber = 0 then (Thrown InvalidArgumentError, c)
            else upload env srv c bucket obj contentType
                   (''partNumber='' @ show_int partNumber @ ''&uploadId='' @ uploadId)
                   stream len sha256sum md5sum))"

subsection \<open>The entry of putObject and fPutObject\<close>

text \<open>
  Both entry points are rejected before any upload (an invalid argument, a file that
  cannot be read, a failing input stream), or finish with one simple PUT, or continue
  with the multipart upload, which starts with \<open>findUploadId\<close>. The multipart upload
  itself is not modelled: \<open>Multipart\<close> records that it was entered, and with which
  total size.
\<close>

datatype upload_path =
    Rejected "string option outcome \<times> client"
  | SinglePut "string option outcome \<times> client"
  | Multipart int

definition putObject ::
  "env \<Rightarrow> transport \<Rightarrow> client \<Rightarrow> string \<Rightarrow> string \<Rightarrow> readable \<Rightarrow> int \<Rightarrow> string \<Rightarrow> upload_path" where
  "putObject env srv c bucket obj stream sz contentType0 =
     (if \<not> isValidBucketName env (Some bucket) then Rejected (Thrown InvalidBucketNameError, c)
      else if \<not> isValidObjectName env obj then Rejected (Thrown InvalidObjectNameError, c)
      else if sz < 0 then Rejected (Thrown InvalidArgumentError, c)
      else
        (let contentType = (if is_blank contentType0 then ''application/octet-stream'' else contentType0)
         in if sz \<le> minimumPartSize then
              (case failure stream of
                 Some e \<Rightarrow> Rejected (CbError e, c)
               | None \<Rightarrow>
                   (let chunk = data stream;
                        sha256sum = (if \<not> anonymous c then sha256_hex env chunk else []);
                        md5sum = md5_base64 env chunk
                    in SinglePut (simpleUploader env srv c bucket obj contentType chunk
                                    (int (length chunk)) sha256sum md5sum)))
            else Multipart sz))"

text \<open>The buffer or string form of \<open>putObject\<close>: the size is the length of the argument.\<close>

definition putObject_buffer ::
  "env \<Rightarrow> transport \<Rightarrow> client \<Rightarrow> string \<Rightarrow> string \<Rightarrow> string \<Rightarrow> string \<Rightarrow> upload_path" where
  "putObject_buffer env srv c bucket obj buf contentType0 =
     putObject env srv c bucket obj \<lparr>data = buf, failure = None\<rparr> (int (length buf)) contentType0"

text \<open>\<open>fs.createReadStream(path, {start, end})\<close> reads the bytes from \<open>start\<close> to \<open>end\<close>, both included.\<close>

definition read_range :: "string \<Rightarrow> int \<Rightarrow> int \<Rightarrow> string" where
  "read_range contents start stop = take (nat (stop - start + 1)) (drop (nat start) contents)"

definition fPutObject ::
  "env \<Rightarrow> transport \<Rightarrow> client \<Rightarrow> fs \<Rightarrow> string \<Rightarrow> string \<Rightarrow> string \<Rightarrow> string \<Rightarrow> upload_path" where
  "fPutObject env srv c files bucket obj filePath contentType0 =
     (if \<not> isValidBucketName env (Some bucket) then Rejected (Thrown InvalidBucketNameError, c)
      else if \<not> isValidObjectName env obj then Rejected (Thrown InvalidObjectNameError, c)
      else
        (let contentType = (if is_blank contentType0 then ''application/octet-stream'' else contentType0)
         in case files filePath of
              None \<Rightarrow> Rejected (CbError (Error ''ENOENT''), c)
            | Some contents \<Rightarrow>
                (let sz = int (length contents)
                 in if sz > maxObjectSize then
                      Rejected (CbError (Error (filePath @ '' size : '' @ show_int sz @
                                  '', max allowed size : 5TB'')), c)
                    else if sz < minimumPartSize then
                      (let start = 0;
                           stop = (if sz = 0 then 0 else sz - 1);
                           hashes = getHashSummer env (anonymous c) (read_range contents start stop);
                           md5sum = fst hashes;
                           sha256sum = snd hashes;
                           stream = read_range contents start stop
                       in SinglePut (simpleUploader env srv c bucket obj contentType stream sz
                                       sha256sum md5sum))
                    else Multipart sz)))"

section \<open>Listing objects\<close>

text \<open>\<open>Array.join\<close> with a separator.\<close>

fun join :: "string \<Rightarrow> string list \<Rightarrow> string" where
  "join sep [] = []"
| "join sep [x] = x"
| "join sep (x # y # ys) = x @ sep @ join sep (y # ys)"

text \<open>
  The array \<open>queries\<close> of \<open>listObjectsQuery\<close> after \<open>queries.sort()\<close>, which orders
  strings by their code units.
\<close>

definition listObjectsQuery_queries :: "env \<Rightarrow> string \<Rightarrow> string \<Rightarrow> string \<Rightarrow> int \<Rightarrow> string list" where
  "listObjectsQuery_queries env pfx marker delimiter maxKeys =
     sort
       ((if pfx \<noteq> [] then [''prefix='' @ uriEscape env pfx] else []) @
        (if marker \<noteq> [] then [''marker='' @ uriEscape env marker] else []) @
        (if delimiter \<noteq> [] then [''delimiter='' @ uriEscape env delimiter] else []) @
        (if maxKeys \<noteq> 0
         then [''max-keys='' @ show_int (if maxKeys \<ge> 1000 then 1000 else maxKeys)]
         else []))"

definition listObjectsQuery_spec ::
  "env \<Rightarrow> string \<Rightarrow> string \<Rightarrow> string \<Rightarrow> string \<Rightarrow> int \<Rightarrow> request_spec" where
  "listObjectsQuery_spec env bucket pfx marker delimiter maxKeys =
     (let queries = listObjectsQuery_queries env pfx marker delimiter maxKeys;
          qry = (if length queries > 0 then join ''&'' queries else [])
      in \<lparr>req_method = ''GET'', bucketName = Some bucket, objectName = None, query = Some qry,
          headers = None\<rparr>)"

definition listObjectsQuery ::
  "env \<Rightarrow> transport \<Rightarrow> client \<Rightarrow> string \<Rightarrow> string \<Rightarrow> string \<Rightarrow> string \<Rightarrow> int
   \<Rightarrow> list_page outcome \<times> client" where
  "listObjectsQuery env srv c bucket pfx marker delimiter maxKeys =
     (if \<not> isValidBucketName env (Some bucket) then (Thrown InvalidBucketNameError, c)
      else case makeRequest env srv c
                  (listObjectsQuery_spec env bucket pfx marker delimiter maxKeys) [] 200 of
             (Thrown e, c1) \<Rightarrow> (Thrown e, c1)
           | (CbError e, c1) \<Rightarrow> (CbError e, c1)
           | (CbOk resp, c1) \<Rightarrow>
               (case getListObjectsTransformer env resp of
                  Inl e \<Rightarrow> (CbError e, c1)
                | Inr page \<Rightarrow> (CbOk page, c1)))"

text \<open>
  The stream \<open>listObjects\<close> returns: the objects pushed so far, and whether it has
  ended, failed, or is still waiting for a page. The closure \<open>listNext\<close> calls itself
  for as long as the server reports a truncated page, so it takes the number of pages it
  may still fetch; when that is used up the stream is left waiting.
\<close>

datatype stream_state = Waiting | Ended | Failed error | Threw error

fun listNext ::
  "nat \<Rightarrow> env \<Rightarrow> transport \<Rightarrow> client \<Rightarrow> string \<Rightarrow> string \<Rightarrow> string \<Rightarrow> string list \<Rightarrow> string
   \<Rightarrow> (string list \<times> stream_state) \<times> client" where
  "listNext 0 env srv c bucket pfx delimiter pushed marker = ((pushed, Waiting), c)"
| "listNext (Suc n) env srv c bucket pfx delimiter pushed marker =
     (case listObjectsQuery env srv c bucket pfx marker delimiter 1000 of
        (Thrown e, c1) \<Rightarrow> ((pushed, Threw e), c1)
      | (CbError e, c1) \<Rightarrow> ((pushed, Failed e), c1)
      | (CbOk page, c1) \<Rightarrow>
          if isTruncated page
          then listNext n env srv c1 bucket pfx delimiter (pushed @ objects page) (nextMarker page)
          else ((pushed @ objects page, Ended), c1))"

definition listObjects ::
  "nat \<Rightarrow> env \<Rightarrow> transport \<Rightarrow> client \<Rightarrow> string \<Rightarrow> string \<Rightarrow> bool
   \<Rightarrow> (string list \<times> stream_state) \<times> client" where
  "listObjects pages env srv c bucket pfx recursive =
     (if \<not> isValidBucketName env (Some bucket) then (([], Threw InvalidBucketNameError), c)
      else if pfx \<noteq> [] \<and> \<not> isValidPrefix env pfx then (([], Threw InvalidPrefixError), c)
      else
        (let delimiter = (if recursive then [] else ''/'')
         in listNext pages env srv c bucket pfx delimiter [] []))"

section \<open>POST policy\<close>

record postPolicy =
  expiration :: "string option"
  conditions :: "condition list"
  formData :: "(string \<times> string) list"

definition newPostPolicy :: postPolicy where
  "newPostPolicy = \<lparr>expiration = None, conditions = [], formData = []\<rparr>"

text \<open>
  The setters. A native date is its time value, \<open>None\<close> when the argument is null or
  undefined. Each setter throws before it changes anything, or returns the changed
  policy. The guard of \<open>setExpires\<close> names an unbound identifier, so evaluating its
  \<open>throw\<close> raises a \<open>ReferenceError\<close>.
\<close>

definition setExpires :: "env \<Rightarrow> postPolicy \<Rightarrow> int option \<Rightarrow> error + postPolicy" where
  "setExpires env p nativedate =
     (case nativedate of
        None \<Rightarrow> Inl ReferenceError
      | Some date \<Rightarrow>
          Inr (p\<lparr>expiration := Some (moment_format env date ''YYYY-MM-DDThh:mm:ss.SSS'' @ ''Z'')\<rparr>))"

definition setKey :: "env \<Rightarrow> postPolicy \<Rightarrow> string \<Rightarrow> error + postPolicy" where
  "setKey env p obj =
     (if \<not> isValidObjectName env obj then Inl InvalidObjectNameError
      else Inr (p\<lparr>conditions := conditions p @ [Cond ''eq'' ''$key'' obj],
                  formData := AList.update ''key'' obj (formData p)\<rparr>))"

definition setKeyStartsWith :: "env \<Rightarrow> postPolicy \<Rightarrow> string \<Rightarrow> error + postPolicy" where
  "setKeyStartsWith env p pfx =
     (if \<not> isValidPrefix env pfx then Inl InvalidPrefixError
      else Inr (p\<lparr>conditions := conditions p @ [Cond ''starts-with'' ''$key'' pfx],
                  formData := AList.update ''key'' pfx (formData p)\<rparr>))"

definition setBucket :: "env \<Rightarrow> postPolicy \<Rightarrow> string \<Rightarrow> error + postPolicy" where
  "setBucket env p bucket =
     (if \<not> isValidBucketName env (Some bucket) then Inl InvalidBucketNameError
      else Inr (p\<lparr>conditions := conditions p @ [Cond ''eq'' ''$bucket'' bucket],
                  formData := AList.update ''bucket'' bucket (formData p)\<rparr>))"

definition setContentType :: "postPolicy \<Rightarrow> string \<Rightarrow> error + postPolicy" where
  "setContentType p type =
     (if type = [] then Inl (Error ''content-type cannot be null'')
      else Inr (p\<lparr>conditions := conditions p @ [Cond ''eq'' ''$Content-Type'' type],
                  formData := AList.update ''Content-Type'' type (formData p)\<rparr>))"

definition setContentLength :: "postPolicy \<Rightarrow> int \<Rightarrow> int \<Rightarrow> error + postPolicy" where
  "setContentLength p min_len max_len =
     (if min_len > max_len then Inl (Error ''min cannot be more than max'')
      else if min_len < 0 then Inl (Error ''min should be > 0'')
      else if max_len < 0 then Inl (Error ''max should be > 0'')
      else Inr (p\<lparr>conditions := conditions p @ [ContentLengthRange min_len max_len]\<rparr>))"

text \<open>
  A caller builds a policy by a sequence of setter calls on a new policy; a call that
  throws leaves the policy as it was.
\<close>

datatype policy_call =
    SetExpires "int option"
  | SetKey string
  | SetKeyStartsWith string
  | SetBucket string
  | SetContentType string
  | SetContentLength int int

fun apply_call :: "env \<Rightarrow> postPolicy \<Rightarrow> policy_call \<Rightarrow> error + postPolicy" where
  "apply_call env p (SetExpires d) = setExpires env p d"
| "apply_call env p (SetKey k) = setKey env p k"
| "apply_call env p (SetKeyStartsWith k) = setKeyStartsWith env p k"
| "apply_call env p (SetBucket b) = setBucket env p b"
| "apply_call env p (SetContentType t) = setContentType p t"
| "apply_call env p (SetContentLength lo hi) = setContentLength p lo hi"

fun build_policy :: "env \<Rightarrow> postPolicy \<Rightarrow> policy_call list \<Rightarrow> postPolicy" where
  "build_policy env p [] = p"
| "build_policy env p (call # calls) =
     build_policy env (case apply_call env p call of Inl e \<Rightarrow> p | Inr p1 \<Rightarrow> p1) calls"

fun is_SetExpires :: "policy_call \<Rightarrow> bool" where
  "is_SetExpires (SetExpires d) = True"
| "is_SetExpires call = False"

fun is_SetBucket :: "policy_call \<Rightarrow> bool" where
  "is_SetBucket (SetBucket b) = True"
| "is_SetBucket call = False"

definition presignedPostPolicy ::
  "env \<Rightarrow> transport \<Rightarrow> client \<Rightarrow> postPolicy \<Rightarrow> (string \<times> string) list outcome \<times> client" where
  "presignedPostPolicy env srv c p =
     (if anonymous c then (Thrown AnonymousRequestError, c)
      else case getBucketRegion env srv c (map_of (formData p) ''bucket'') of
             (Thrown e, c1) \<Rightarrow> (Thrown e, c1)
           | (CbError e, c1) \<Rightarrow> (CbError e, c1)
           | (CbOk region, c1) \<Rightarrow>
               (let dateStr = utcNow env @ ''Z'';
                    credential = accessKey c @ ''/'' @ getScope env region (utcNow env);
                    conds = conditions p @
                      [Cond ''eq'' ''$x-amz-date'' dateStr,
                       Cond ''eq'' ''$x-amz-algorithm'' ''AWS4-HMAC-SHA256'',
                       Cond ''eq'' ''$x-amz-credential'' credential];
                    fd1 = AList.update ''x-amz-credential'' credential
                            (AList.update ''x-amz-algorithm'' ''AWS4-HMAC-SHA256''
                               (AList.update ''x-amz-date'' dateStr (formData p)));
                    policyBase64 = json_base64 env (expiration p, conds);
                    fd2 = AList.update ''policy'' policyBase64 fd1;
                    signature = postPresignSignatureV4 env region (utcNow env) (secretKey c) policyBase64;
                    fd3 = AList.update ''x-amz-signature'' signature fd2
                in (CbOk fd3, c1)))"

section \<open>A concrete environment\<close>

text \<open>
  One instance of the collaborators, a client and some servers, on which the
  definitions can be evaluated. The theorems do not depend on them.
\<close>

definition demo_region_text :: "region_value \<Rightarrow> string" where
  "demo_region_text region =
     (case region of RegionName r \<Rightarrow> r | PrototypeMember k \<Rightarrow> ''[inherited '' @ k @ '']'')"

definition demo_env :: env where
  "demo_env =
     \<lparr>isValidBucketName = (\<lambda>b. truthy_opt b),
      isValidObjectName = (\<lambda>s. s \<noteq> []),
      isValidPrefix = (\<lambda>s. True),
      isValidACL = (\<lambda>a. a \<in> set [''private'', ''public-read'', ''public-read-write'',
                                   ''authenticated-read'']),
      uriEscape = (\<lambda>s. s),
      uriResourceEscape = (\<lambda>s. s),
      signV4 = (\<lambda>ro ak sk region. ''AWS4-HMAC-SHA256 '' @ ak @ ''/'' @ demo_region_text region),
      postPresignSignatureV4 = (\<lambda>region date secret policy. replicate 64 (CHR ''f'')),
      getScope = (\<lambda>region date. date @ ''/'' @ demo_region_text region @ ''/s3/aws4_request''),
      sha256_hex = (\<lambda>s. replicate 64 (CHR ''0'')),
      md5_base64 = (\<lambda>s. ''1B2M2Y8AsgTpgAmY7PhCfg==''),
      getHashSummer = (\<lambda>anon s. (''1B2M2Y8AsgTpgAmY7PhCfg=='',
                                   if anon then [] else replicate 64 (CHR ''0''))),
      utcNow = ''20160101T000000'',
      moment_format = (\<lambda>d f. ''2016-01-01T00:00:00.000''),
      json_base64 = (\<lambda>p. ''e30=''),
      xml_escape = (\<lambda>s. s),
      path_dirname = (\<lambda>p. ''/tmp''),
      mkdirp = (\<lambda>d. None),
      getErrorTransformer = (\<lambda>r. S3Error (body r)),
      getBucketRegionTransformer = (\<lambda>r. Inr [body r]),
      getAclTransformer = (\<lambda>r. Inr []),
      getListObjectsTransformer =
        (\<lambda>r. Inr \<lparr>objects = [body r], isTruncated = False, nextMarker = []\<rparr>)\<rparr>"

definition demo_client :: client where
  "demo_client =
     \<lparr>host = ''localhost'', port = 9000, protocol = ''http:'', accessKey = ''AK'',
      secretKey = ''SK'', anonymous = False, virtualHostStyle = False,
      regionMap = Map.empty, trace = []\<rparr>"

text \<open>A server that answers every request with the given status and body.\<close>

definition demo_server :: "int \<Rightarrow> string \<Rightarrow> transport" where
  "demo_server status content ro payload =
     Inr \<lparr>statusCode = status, resp_headers = [], body = content, bodyError = None\<rparr>"

text \<open>
  A server that answers the region lookup with status 200 and an empty body, and every
  other request with the given status and body.
\<close>

definition demo_bucket_server :: "int \<Rightarrow> headers \<Rightarrow> string \<Rightarrow> transport" where
  "demo_bucket_server status hs content ro payload =
     (if ro_path ro = ''/b?location''
      then Inr \<lparr>statusCode = 200, resp_headers = [], body = [], bodyError = None\<rparr>
      else Inr \<lparr>statusCode = status, resp_headers = hs, body = content, bodyError = None\<rparr>)"

text \<open>A grant list: everyone may read, and one grant the reduction ignores.\<close>

definition demo_acl :: "grant list" where
  "demo_acl =
     [\<lparr>grantee_uri = ''http://acs.amazonaws.com/groups/global/AllUsers'',
       permission = ''READ''\<rparr>,
      \<lparr>grantee_uri = ''http://acs.amazonaws.com/groups/global/AllUsers'',
       permission = ''FULL_CONTROL''\<rparr>]"

text \<open>
  A server holding the object \<open>abc\<close> with ETag \<open>e\<close> in bucket \<open>b\<close>: it answers the
  region lookup, a HEAD with the object's headers, a GET with a range header with status
  206 and the last byte, and any other request with status 200 and the whole object.
\<close>

definition demo_object_server :: transport where
  "demo_object_server ro payload =
     (if ro_path ro = ''/b?location''
      then Inr \<lparr>statusCode = 200, resp_headers = [], body = [], bodyError = None\<rparr>
      else if ro_method ro = ''HEAD''
      then Inr \<lparr>statusCode = 200,
                resp_headers = [(''etag'', ''e''), (''content-length'', ''3'')],
                body = [], bodyError = None\<rparr>
      else if map_of (ro_headers ro) ''range'' = Some ''bytes=2-''
      then Inr \<lparr>statusCode = 206, resp_headers = [(''etag'', ''e'')], body = ''c'',
                bodyError = None\<rparr>
      else Inr \<lparr>statusCode = 200, resp_headers = [(''etag'', ''e'')], body = ''abc'',
                bodyError = None\<rparr>)"

text \<open>
  A listing of two pages: the server answers the first page request with \<open>first\<close> and
  every later one with \<open>second\<close>, and the decoder reports the page \<open>first\<close> as
  truncated, with next marker \<open>m\<close>.
\<close>

definition demo_listing_server :: transport where
  "demo_listing_server ro payload =
     (if ro_path ro = ''/b?location''
      then Inr \<lparr>statusCode = 200, resp_headers = [], body = [], bodyError = None\<rparr>
      else if ro_path ro = ''/b?delimiter=/&max-keys=1000&prefix=p''
      then Inr \<lparr>statusCode = 200, resp_headers = [], body = ''first'', bodyError = None\<rparr>
      else Inr \<lparr>statusCode = 200, resp_headers = [], body = ''second'', bodyError = None\<rparr>)"

definition demo_listing_env :: env where
  "demo_listing_env =
     demo_env\<lparr>getListObjectsTransformer :=
       (\<lambda>r. Inr \<lparr>objects = [body r], isTruncated = (body r = ''first''), nextMarker = ''m''\<rparr>)\<rparr>"

text \<open>The client after the first page of that listing.\<close>

definition demo_listing_c1 :: client where
  "demo_listing_c1 =
     snd (listObjectsQuery demo_listing_env demo_listing_server demo_client ''b'' ''p'' [] ''/'' 1000)"

section \<open>Properties\<close>

subsection \<open>Unfolding the request pipeline\<close>

lemmas request_defs = makeRequest_def makeRequestStream_def inner_makeRequest_def
  getBucketRegion_def getBucketRegion_request_def sign_request_def stamp_request_def
  getRequestOptions_def
  log_def truthy_opt_def truthy_entry_def cached_region_def object_prototype_keys_def template_def
  Let_def toLowerCase_def lower_char_def

lemmas demo_defs = demo_env_def demo_client_def demo_server_def demo_bucket_server_def
  demo_region_text_def

lemmas show_defs = show_int_def show_nat.simps digit_char_def

lemma regionMap_log [simp]: "regionMap (log ev c) = regionMap c"
  by (simp add: log_def)

lemma trace_log [simp]: "trace (log ev c) = trace c @ [ev]"
  by (simp add: log_def)

lemma sign_request_fields [simp]:
  "ro_method (sign_request env c ro sha region) = ro_method ro"
  "ro_host (sign_request env c ro sha region) = ro_host ro"
  "ro_path (sign_request env c ro sha region) = ro_path ro"
  by (simp_all add: sign_request_def stamp_request_def Let_def)

lemma sign_request_keeps_header:
  assumes "k \<noteq> ''authorization''" and "k \<noteq> ''x-amz-content-sha256''" and "k \<noteq> ''x-amz-date''"
  shows "map_of (ro_headers (sign_request env c ro sha region)) k = map_of (ro_headers ro) k"
  using assms by (simp add: sign_request_def stamp_request_def Let_def update_conv')

lemma sign_request_authorization:
  assumes "\<not> anonymous c"
  shows "map_of (ro_headers (sign_request env c ro sha region)) ''authorization'' =
           Some (signV4 env (stamp_request env ro sha) (accessKey c) (secretKey c) region)"
  using assms by (simp add: sign_request_def Let_def update_conv')

lemma stamp_request_fields [simp]:
  "ro_method (stamp_request env ro sha) = ro_method ro"
  "ro_host (stamp_request env ro sha) = ro_host ro"
  "ro_path (stamp_request env ro sha) = ro_path ro"
  "map_of (ro_headers (stamp_request env ro sha)) ''x-amz-content-sha256'' = Some sha"
  by (simp_all add: stamp_request_def update_conv')

lemma demo_env_fields:
  "isValidBucketName demo_env v = truthy_opt v"
  "isValidObjectName demo_env s = (s \<noteq> [])"
  "uriEscape demo_env s = s"
  "uriResourceEscape demo_env s = s"
  "signV4 demo_env ro ak sk (RegionName rg) = ''AWS4-HMAC-SHA256 '' @ ak @ ''/'' @ rg"
  "signV4 demo_env ro ak sk (PrototypeMember k) =
     ''AWS4-HMAC-SHA256 '' @ ak @ ''/'' @ ''[inherited '' @ k @ '']''"
  "sha256_hex demo_env s = replicate 64 (CHR ''0'')"
  "md5_base64 demo_env s = ''1B2M2Y8AsgTpgAmY7PhCfg==''"
  "utcNow demo_env = ''20160101T000000''"
  "path_dirname demo_env s = ''/tmp''"
  "mkdirp demo_env s = None"
  "getErrorTransformer demo_env r = S3Error (body r)"
  "getBucketRegionTransformer demo_env r = Inr [body r]"
  by (simp_all add: demo_env_def demo_region_text_def)

lemma requests_append: "requests (xs @ ys) = requests xs @ requests ys"
  by (induction xs rule: requests.induct) simp_all

lemma request_paths_append: "request_paths (xs @ ys) = request_paths xs @ request_paths ys"
  by (simp add: request_paths_def requests_append)

lemma demo_env_post_fields:
  "getScope demo_env (RegionName rg) date = date @ ''/'' @ rg @ ''/s3/aws4_request''"
  "postPresignSignatureV4 demo_env region date secret policy = replicate 64 (CHR ''f'')"
  "json_base64 demo_env pol = ''e30=''"
  "moment_format demo_env d f = ''2016-01-01T00:00:00.000''"
  by (simp_all add: demo_env_def demo_region_text_def)

subsection \<open>The requests an operation opens\<close>

lemma request_paths_simps [simp]:
  "request_paths [] = []"
  "request_paths (Request ro pl # evs) = ro_path ro # request_paths evs"
  "request_paths (CacheInsert k v # evs) = request_paths evs"
  "request_paths (CacheDelete k # evs) = request_paths evs"
  "request_paths (Callback r # evs) = request_paths evs"
  by (simp_all add: request_paths_def)

lemma same_config_refl [simp]: "same_config c c"
  by (simp add: same_config_def)

lemma same_config_trans: "same_config c c1 \<Longrightarrow> same_config c1 c2 \<Longrightarrow> same_config c c2"
  by (simp add: same_config_def)

lemma same_config_log [simp]: "same_config c (log ev c1) = same_config c c1"
  by (simp add: same_config_def log_def)

lemma same_config_regionMap [simp]: "same_config c (c1\<lparr>regionMap := m\<rparr>) = same_config c c1"
  by (simp add: same_config_def)

lemma getRequestOptions_same_config:
  "same_config c c1 \<Longrightarrow> getRequestOptions env c1 options = getRequestOptions env c options"
  by (simp add: same_config_def getRequestOptions_def)

lemma getRequestOptions_path_headers:
  "ro_path (getRequestOptions env c (options\<lparr>headers := h\<rparr>)) = ro_path (getRequestOptions env c options)"
  by (simp add: getRequestOptions_def Let_def)


lemma getBucketRegion_events:
  "\<exists>evs. trace (snd (getBucketRegion env srv c (Some b))) = trace c @ evs \<and>
         set (request_paths evs) \<subseteq> {''/'' @ b @ ''?location''} \<and>
         same_config c (snd (getBucketRegion env srv c (Some b)))"
proof -
  have p: "ro_path (getBucketRegion_request env c (Some b)) = ''/'' @ b @ ''?location''"
    by (simp add: getBucketRegion_request_def Let_def template_def)
  show ?thesis
    by (simp add: getBucketRegion_def Let_def p split: option.splits sum.splits)
qed


lemma inner_makeRequest_events:
  "\<exists>evs. trace (snd (inner_makeRequest env srv c options ro stream sha expected region)) = trace c @ evs \<and>
         set (request_paths evs) \<subseteq> {ro_path ro} \<and>
         same_config c (snd (inner_makeRequest env srv c options ro stream sha expected region))"
  by (simp add: inner_makeRequest_def Let_def split: sum.splits)

lemma makeRequestStream_events:
  assumes "bucketName options = Some b"
  shows "\<exists>evs. trace (snd (makeRequestStream env srv c options stream sha expected)) = trace c @ evs \<and>
         set (request_paths evs) \<subseteq> {''/'' @ b @ ''?location'', ro_path (getRequestOptions env c options)} \<and>
         same_config c (snd (makeRequestStream env srv c options stream sha expected))"
proof -
  obtain r c1 where g: "getBucketRegion env srv c (Some b) = (r, c1)"
    by (cases "getBucketRegion env srv c (Some b)")
  from getBucketRegion_events [of env srv c b] g
  obtain evs1 where e1: "trace c1 = trace c @ evs1"
      "set (request_paths evs1) \<subseteq> {''/'' @ b @ ''?location''}" "same_config c c1"
    by auto
  let ?ro = "getRequestOptions env c options"
  show ?thesis
  proof (cases r)
    case (CbOk region)
    from inner_makeRequest_events [of env srv c1 options ?ro stream sha expected region]
    obtain evs2 where e2:
      "trace (snd (inner_makeRequest env srv c1 options ?ro stream sha expected region)) = trace c1 @ evs2"
      "set (request_paths evs2) \<subseteq> {ro_path ?ro}"
      "same_config c1 (snd (inner_makeRequest env srv c1 options ?ro stream sha expected region))"
      by auto
    from inner_makeRequest_events [of env srv c options ?ro stream sha expected "RegionName ''us-east-1''"]
    obtain evs3 where e3:
      "trace (snd (inner_makeRequest env srv c options ?ro stream sha expected (RegionName ''us-east-1''))) = trace c @ evs3"
      "set (request_paths evs3) \<subseteq> {ro_path ?ro}"
      "same_config c (snd (inner_makeRequest env srv c options ?ro stream sha expected (RegionName ''us-east-1'')))"
      by auto
    show ?thesis
      using assms g CbOk e1 e2 e3 same_config_trans [OF e1(3) e2(3)]
      by (auto simp add: makeRequestStream_def Let_def request_paths_append
          getRequestOptions_same_config)
  next
    case (Thrown e)
    from inner_makeRequest_events [of env srv c options ?ro stream sha expected "RegionName ''us-east-1''"]
    obtain evs3 where e3:
      "trace (snd (inner_makeRequest env srv c options ?ro stream sha expected (RegionName ''us-east-1''))) = trace c @ evs3"
      "set (request_paths evs3) \<subseteq> {ro_path ?ro}"
      "same_config c (snd (inner_makeRequest env srv c options ?ro stream sha expected (RegionName ''us-east-1'')))"
      by auto
    show ?thesis
      using assms g Thrown e1 e3
      by (auto simp add: makeRequestStream_def Let_def request_paths_append)
  next
    case (CbError e)
    from inner_makeRequest_events [of env srv c options ?ro stream sha expected "RegionName ''us-east-1''"]
    obtain evs3 where e3:
      "trace (snd (inner_makeRequest env srv c options ?ro stream sha expected (RegionName ''us-east-1''))) = trace c @ evs3"
      "set (request_paths evs3) \<subseteq> {ro_path ?ro}"
      "same_config c (snd (inner_makeRequest env srv c options ?ro stream sha expected (RegionName ''us-east-1'')))"
      by auto
    show ?thesis
      using assms g CbError e1 e3
      by (auto simp add: makeRequestStream_def Let_def request_paths_append)
  qed
qed

lemma makeRequest_events:
  assumes "bucketName options = Some b"
  shows "\<exists>evs. trace (snd (makeRequest env srv c options payload expected)) = trace c @ evs \<and>
         set (request_paths evs) \<subseteq> {''/'' @ b @ ''?location'', ro_path (getRequestOptions env c options)} \<and>
         same_config c (snd (makeRequest env srv c options payload expected))"
  using makeRequestStream_events [of "options\<lparr>headers := Some (AList.update ''content-length''
      (show_int (int (length payload))) (case headers options of None \<Rightarrow> [] | Some h \<Rightarrow> h))\<rparr>" b env srv c payload
      "if \<not> anonymous c then sha256_hex env payload else []" expected] assms
  by (simp add: makeRequest_def Let_def getRequestOptions_path_headers)


subsection \<open>Part size\<close>

lemma Math_ceil_div_ceiling:
  "Math_ceil_div a b = \<lceil>real_of_int a / real_of_int b\<rceil>"
proof -
  have "\<lceil>real_of_int a / real_of_int b\<rceil> = - \<lfloor>real_of_int (- a) / real_of_int b\<rfloor>"
    by (simp add: ceiling_def)
  also have "\<dots> = - ((- a) div b)"
    by (simp only: floor_divide_of_int_eq)
  finally show ?thesis
    by (simp add: Math_ceil_div_def)
qed

lemma Math_ceil_div_mono:
  "a \<le> a' \<Longrightarrow> 0 < b \<Longrightarrow> Math_ceil_div a b \<le> Math_ceil_div a' b"
  by (simp add: Math_ceil_div_def zdiv_mono1)

lemma Math_ceil_div_pos:
  assumes a: "0 < a" and b: "0 < b"
  shows "0 < Math_ceil_div a b"
proof -
  have "(- a) div b < 0"
    using a b by (simp add: pos_imp_zdiv_neg_iff)
  then show ?thesis
    by (simp add: Math_ceil_div_def)
qed

lemma Math_ceil_div_zero: "Math_ceil_div 0 b = 0"
  by (simp add: Math_ceil_div_def)

lemma calculatePartSize_eq_formula:
  "S \<le> maxObjectSize \<Longrightarrow> calculatePartSize S = Inr (partSize_formula S)"
  by (simp add: calculatePartSize_def partSize_formula_def Let_def Math_ceil_div_ceiling)

lemma partSize_formula_alt:
  "partSize_formula S = Math_ceil_div (Math_ceil_div S 10000) minimumPartSize * minimumPartSize"
  by (simp add: partSize_formula_def Math_ceil_div_ceiling)

lemma partSize_formula_upper:
  assumes "S \<le> maxObjectSize"
  shows "partSize_formula S \<le> 525 * 1024 * 1024"
proof -
  have "Math_ceil_div S 10000 \<le> Math_ceil_div maxObjectSize 10000"
    using assms by (rule Math_ceil_div_mono) simp
  also have "Math_ceil_div maxObjectSize 10000 = 549755814"
    by (simp add: Math_ceil_div_def maxObjectSize_def)
  finally have "Math_ceil_div (Math_ceil_div S 10000) minimumPartSize
      \<le> Math_ceil_div 549755814 minimumPartSize"
    by (rule Math_ceil_div_mono) (simp add: minimumPartSize_def)
  also have "Math_ceil_div 549755814 minimumPartSize = 105"
    by (simp add: Math_ceil_div_def minimumPartSize_def)
  finally show ?thesis
    by (simp add: partSize_formula_alt minimumPartSize_def)
qed

lemma partSize_formula_pos:
  "0 < S \<Longrightarrow> 0 < partSize_formula S"
  by (simp add: partSize_formula_alt Math_ceil_div_pos minimumPartSize_def)

lemma partSize_formula_nonpos:
  assumes "S \<le> 0"
  shows "partSize_formula S \<le> 0"
proof -
  from assms have "Math_ceil_div S 10000 \<le> Math_ceil_div 0 10000"
    by (rule Math_ceil_div_mono) simp
  then have "Math_ceil_div S 10000 \<le> 0"
    by (simp add: Math_ceil_div_zero)
  then have "Math_ceil_div (Math_ceil_div S 10000) minimumPartSize \<le> Math_ceil_div 0 minimumPartSize"
    by (rule Math_ceil_div_mono) (simp add: minimumPartSize_def)
  then have "Math_ceil_div (Math_ceil_div S 10000) minimumPartSize \<le> 0"
    by (simp add: Math_ceil_div_zero)
  then show ?thesis
    by (simp add: partSize_formula_alt minimumPartSize_def mult_le_0_iff)
qed

text \<open>
  What the code computes on the whole range: for every size \<open>S\<close> with
  \<open>0 \<le> S \<le> maxObjectSize\<close>, \<open>calculatePartSize S\<close> returns
  \<open>ceil(ceil(S / 10000) / minimumPartSize) * minimumPartSize\<close>, a multiple of 5 MiB
  that never exceeds \<open>maximumPartSize\<close>; for every positive size it is positive, hence
  at least \<open>minimumPartSize\<close>. For \<open>S > maxObjectSize\<close> the function raises an
  error, and \<open>calculatePartSize (5 * 2 ^ 40) = 525 * 1024 * 1024\<close>.
\<close>

lemma calculatePartSize_positive_sizes:
  "(0 \<le> S \<and> S \<le> maxObjectSize \<longrightarrow>
      calculatePartSize S = Inr (partSize_formula S) \<and>
      minimumPartSize dvd partSize_formula S \<and>
      partSize_formula S \<le> maximumPartSize \<and>
      (0 < S \<longrightarrow> minimumPartSize \<le> partSize_formula S)) \<and>
   (maxObjectSize < S \<longrightarrow> calculatePartSize S = Inl TypeError) \<and>
   calculatePartSize (5 * 2 ^ 40) = Inr (525 * 1024 * 1024)"
proof (intro conjI impI)
  assume h: "0 \<le> S \<and> S \<le> maxObjectSize"
  then show "calculatePartSize S = Inr (partSize_formula S)"
    by (simp add: calculatePartSize_eq_formula)
  show d: "minimumPartSize dvd partSize_formula S"
    by (simp add: partSize_formula_def)
  have "partSize_formula S \<le> 525 * 1024 * 1024"
    using h partSize_formula_upper [of S] by simp
  then show "partSize_formula S \<le> maximumPartSize"
    by (simp add: maximumPartSize_def)
  assume "0 < S"
  then have "0 < partSize_formula S"
    by (rule partSize_formula_pos)
  with d show "minimumPartSize \<le> partSize_formula S"
    by (simp add: zdvd_imp_le)
next
  assume "maxObjectSize < S"
  then show "calculatePartSize S = Inl TypeError"
    by (simp add: calculatePartSize_def)
next
  show "calculatePartSize (5 * 2 ^ 40) = Inr (525 * 1024 * 1024)"
    by (simp add: calculatePartSize_def maxObjectSize_def minimumPartSize_def Math_ceil_div_def)
qed

text \<open>
  C2. The claim promises, for every \<open>0 \<le> S \<le> maxObjectSize\<close>, a positive multiple of
  5 MiB, and the comment above \<open>calculatePartSize\<close> says that the part size is at least
  \<open>minimumPartSize\<close> and is always 5 MB for sizes up to 50000 MB. At \<open>S = 0\<close>, a size
  within the range, the function returns \<open>0\<close>, which is below \<open>minimumPartSize\<close>:
  \<open>Math.ceil(0 / 10000)\<close> is \<open>0\<close> and so is \<open>Math.ceil(0 / minimumPartSize)\<close>.
\<close>

theorem calculatePartSize_zero:
  "(0::int) \<le> maxObjectSize \<and> calculatePartSize 0 = Inr 0 \<and> (0::int) < minimumPartSize"
  by (simp add: calculatePartSize_def maxObjectSize_def minimumPartSize_def Math_ceil_div_def)
subsection \<open>Region cache\<close>

lemma getBucketRegion_cached:
  assumes "isValidBucketName env (Some b)" and "regionMap c b = Some r" and "r \<noteq> []"
  shows "getBucketRegion env srv c (Some b) = (CbOk (RegionName r), c)"
  using assms by (simp add: getBucketRegion_def cached_region_def template_def)

lemma getBucketRegion_inherited:
  assumes "isValidBucketName env (Some b)" and "regionMap c b = None"
    and "b \<in> set object_prototype_keys"
  shows "getBucketRegion env srv c (Some b) = (CbOk (PrototypeMember b), c)"
  using assms by (simp add: getBucketRegion_def cached_region_def template_def)

lemma cached_region_None_iff:
  "cached_region c b = None \<longleftrightarrow>
     regionMap c b = Some [] \<or> (regionMap c b = None \<and> b \<notin> set object_prototype_keys)"
  by (simp add: cached_region_def split: option.splits)

lemma getBucketRegion_lookup:
  assumes "isValidBucketName env (Some b)" and "cached_region c b = None"
  shows "getBucketRegion env srv c (Some b) =
     (case srv (getBucketRegion_request env c (Some b)) [] of
        Inl e \<Rightarrow> (CbError e, log (Request (getBucketRegion_request env c (Some b)) []) c)
      | Inr resp \<Rightarrow>
          if statusCode resp \<noteq> 200
          then (CbError (getErrorTransformer env resp),
                log (Request (getBucketRegion_request env c (Some b)) []) c)
          else (case getBucketRegionTransformer env resp of
                  Inl e \<Rightarrow> (CbError e, log (Request (getBucketRegion_request env c (Some b)) []) c)
                | Inr datas \<Rightarrow>
                    (CbOk (RegionName (fold (\<lambda>d r. if d \<noteq> [] then d else r) datas ''us-east-1'')),
                     log (CacheInsert b (fold (\<lambda>d r. if d \<noteq> [] then d else r) datas ''us-east-1''))
                       ((log (Request (getBucketRegion_request env c (Some b)) []) c)
                          \<lparr>regionMap := (regionMap c)(b \<mapsto>
                             fold (\<lambda>d r. if d \<noteq> [] then d else r) datas ''us-east-1'')\<rparr>))))"
  using assms
  by (simp add: getBucketRegion_def template_def Let_def split: sum.splits)

lemma fold_region_default:
  "list_all (\<lambda>d. d = []) datas \<Longrightarrow> fold (\<lambda>d r. if d \<noteq> [] then d else r) datas r0 = r0"
  by (induction datas arbitrary: r0) simp_all

lemma fold_region_nonempty:
  "r0 \<noteq> [] \<Longrightarrow> fold (\<lambda>d r. if d \<noteq> [] then d else r) datas r0 \<noteq> []"
  by (induction datas arbitrary: r0) simp_all

lemma getBucketRegion_request_shape:
  "ro_method (getBucketRegion_request env c (Some b)) = ''GET''"
  "ro_host (getBucketRegion_request env c (Some b)) = host c"
  "ro_path (getBucketRegion_request env c (Some b)) = ''/'' @ b @ ''?location''"
  by (simp_all add: getBucketRegion_request_def Let_def template_def)

lemma getBucketRegion_request_signed:
  "\<not> anonymous c \<Longrightarrow>
   map_of (ro_headers (getBucketRegion_request env c (Some b))) ''authorization'' =
     Some (signV4 env
             ((getBucketRegion_request env c (Some b))
                \<lparr>ro_headers := butlast (ro_headers (getBucketRegion_request env c (Some b)))\<rparr>)
             (accessKey c) (secretKey c) (RegionName ''us-east-1''))"
  by (simp add: getBucketRegion_request_def Let_def)

lemma makeRequestStream_no_bucket:
  assumes "\<not> truthy_opt (bucketName options)" and "anonymous c \<or> length sha = 64"
  shows "makeRequestStream env srv c options stream sha expected =
     inner_makeRequest env srv c options (getRequestOptions env c options) stream sha expected
       (RegionName ''us-east-1'')"
  using assms by (auto simp add: makeRequestStream_def Let_def)

lemma inner_makeRequest_trace:
  "\<exists>evs. trace (snd (inner_makeRequest env srv c options ro stream sha expected region)) =
     trace c @ Request (sign_request env c ro sha region) stream # evs \<and>
     (\<forall>ro' pl. Request ro' pl \<notin> set evs)"
  by (auto simp add: inner_makeRequest_def Let_def split: sum.splits)


text \<open>
  Region resolution. A request whose options carry no bucket name is sent with the
  region \<open>us-east-1\<close> and without any lookup. A bucket whose region is an entry of the
  cache gets that region, and the client is left as it was: no request is issued. When
  the read of the cache yields nothing (no entry of its own, and the name is not one that
  the object inherits), exactly one request is issued: a GET of \<open>/{bucket}?location\<close>
  on the configured host (path style), signed for the region \<open>us-east-1\<close> unless the
  client is anonymous. When the transport fails, the status is not 200 or the decoder
  fails, the error reaches the caller and the cache is unchanged; on success the region is
  inserted into the cache and returned, and it is \<open>us-east-1\<close> when the decoder emitted
  nothing or only empty strings.
\<close>

lemma region_resolution_own_entries:
  "(\<not> truthy_opt (bucketName options) \<and> (anonymous c \<or> length sha = 64) \<longrightarrow>
      makeRequestStream env srv c options stream sha expected =
        inner_makeRequest env srv c options (getRequestOptions env c options) stream sha expected
          (RegionName ''us-east-1'') \<and>
      (\<exists>evs. trace (snd (makeRequestStream env srv c options stream sha expected)) =
         trace c @ Request (sign_request env c (getRequestOptions env c options) sha
                              (RegionName ''us-east-1''))
                     stream # evs \<and>
         (\<forall>ro pl. Request ro pl \<notin> set evs))) \<and>
   (isValidBucketName env (Some b) \<and> regionMap c b = Some r \<and> r \<noteq> [] \<longrightarrow>
      getBucketRegion env srv c (Some b) = (CbOk (RegionName r), c)) \<and>
   (isValidBucketName env (Some b) \<and> cached_region c b = None \<longrightarrow>
      ro_method (getBucketRegion_request env c (Some b)) = ''GET'' \<and>
      ro_host (getBucketRegion_request env c (Some b)) = host c \<and>
      ro_path (getBucketRegion_request env c (Some b)) = ''/'' @ b @ ''?location'' \<and>
      (\<not> anonymous c \<longrightarrow>
         map_of (ro_headers (getBucketRegion_request env c (Some b))) ''authorization'' =
           Some (signV4 env
                   ((getBucketRegion_request env c (Some b))
                      \<lparr>ro_headers := butlast (ro_headers (getBucketRegion_request env c (Some b)))\<rparr>)
                   (accessKey c) (secretKey c) (RegionName ''us-east-1''))) \<and>
      (\<exists>evs. trace (snd (getBucketRegion env srv c (Some b))) =
         trace c @ Request (getBucketRegion_request env c (Some b)) [] # evs \<and>
         (\<forall>ro pl. Request ro pl \<notin> set evs)) \<and>
      (case srv (getBucketRegion_request env c (Some b)) [] of
         Inl e \<Rightarrow>
           fst (getBucketRegion env srv c (Some b)) = CbError e \<and>
           regionMap (snd (getBucketRegion env srv c (Some b))) = regionMap c
       | Inr resp \<Rightarrow>
           if statusCode resp \<noteq> 200 then
             fst (getBucketRegion env srv c (Some b)) = CbError (getErrorTransformer env resp) \<and>
             regionMap (snd (getBucketRegion env srv c (Some b))) = regionMap c
           else
             (case getBucketRegionTransformer env resp of
                Inl e \<Rightarrow>
                  fst (getBucketRegion env srv c (Some b)) = CbError e \<and>
                  regionMap (snd (getBucketRegion env srv c (Some b))) = regionMap c
              | Inr datas \<Rightarrow>
                  (\<exists>region. region \<noteq> [] \<and>
                     fst (getBucketRegion env srv c (Some b)) = CbOk (RegionName region) \<and>
                     regionMap (snd (getBucketRegion env srv c (Some b))) = (regionMap c)(b \<mapsto> region) \<and>
                     (list_all (\<lambda>d. d = []) datas \<longrightarrow> region = ''us-east-1'')))))"
proof (intro conjI impI)
  assume h: "\<not> truthy_opt (bucketName options) \<and> (anonymous c \<or> length sha = 64)"
  then show eq: "makeRequestStream env srv c options stream sha expected =
        inner_makeRequest env srv c options (getRequestOptions env c options) stream sha expected
          (RegionName ''us-east-1'')"
    by (simp add: makeRequestStream_no_bucket)
  show "\<exists>evs. trace (snd (makeRequestStream env srv c options stream sha expected)) =
         trace c @ Request (sign_request env c (getRequestOptions env c options) sha
                              (RegionName ''us-east-1''))
                     stream # evs \<and>
         (\<forall>ro pl. Request ro pl \<notin> set evs)"
    unfolding eq by (rule inner_makeRequest_trace)
next
  assume "isValidBucketName env (Some b) \<and> regionMap c b = Some r \<and> r \<noteq> []"
  then show "getBucketRegion env srv c (Some b) = (CbOk (RegionName r), c)"
    by (simp add: getBucketRegion_cached)
next
  assume h: "isValidBucketName env (Some b) \<and> cached_region c b = None"
  show "ro_method (getBucketRegion_request env c (Some b)) = ''GET''"
    and "ro_host (getBucketRegion_request env c (Some b)) = host c"
    and "ro_path (getBucketRegion_request env c (Some b)) = ''/'' @ b @ ''?location''"
    by (simp_all add: getBucketRegion_request_shape)
  note lookup = getBucketRegion_lookup [of env b c srv]
  show "\<exists>evs. trace (snd (getBucketRegion env srv c (Some b))) =
         trace c @ Request (getBucketRegion_request env c (Some b)) [] # evs \<and>
         (\<forall>ro pl. Request ro pl \<notin> set evs)"
    using h by (auto simp add: lookup split: sum.splits)
  show "case srv (getBucketRegion_request env c (Some b)) [] of
         Inl e \<Rightarrow>
           fst (getBucketRegion env srv c (Some b)) = CbError e \<and>
           regionMap (snd (getBucketRegion env srv c (Some b))) = regionMap c
       | Inr resp \<Rightarrow>
           if statusCode resp \<noteq> 200 then
             fst (getBucketRegion env srv c (Some b)) = CbError (getErrorTransformer env resp) \<and>
             regionMap (snd (getBucketRegion env srv c (Some b))) = regionMap c
           else
             (case getBucketRegionTransformer env resp of
                Inl e \<Rightarrow>
                  fst (getBucketRegion env srv c (Some b)) = CbError e \<and>
                  regionMap (snd (getBucketRegion env srv c (Some b))) = regionMap c
              | Inr datas \<Rightarrow>
                  (\<exists>region. region \<noteq> [] \<and>
                     fst (getBucketRegion env srv c (Some b)) = CbOk (RegionName region) \<and>
                     regionMap (snd (getBucketRegion env srv c (Some b))) = (regionMap c)(b \<mapsto> region) \<and>
                     (list_all (\<lambda>d. d = []) datas \<longrightarrow> region = ''us-east-1'')))"
    using h by (auto simp add: lookup fold_region_default fold_region_nonempty split: sum.splits)
next
  assume "isValidBucketName env (Some b) \<and> cached_region c b = None" and "\<not> anonymous c"
  then show "map_of (ro_headers (getBucketRegion_request env c (Some b))) ''authorization'' =
           Some (signV4 env
                   ((getBucketRegion_request env c (Some b))
                      \<lparr>ro_headers := butlast (ro_headers (getBucketRegion_request env c (Some b)))\<rparr>)
                   (accessKey c) (secretKey c) (RegionName ''us-east-1''))"
    by (simp add: getBucketRegion_request_signed)
qed

text \<open>
  C4. The claim has every bucket without a cached region resolved by a GET of
  \<open>/{bucket}?location\<close>. The cache is the plain object \<open>this.regionMap = {}\<close>, and
  \<open>getBucketRegion\<close> reads it with \<open>this.regionMap[bucketName]\<close>, which also finds
  what the object inherits. On a client that has cached nothing, the bucket
  \<open>constructor\<close> is therefore taken as cached: no request is issued, the client is
  left as it was, and the callback receives the inherited member instead of a region
  name. For the bucket \<open>b\<close> the same client issues the lookup.
\<close>

theorem getBucketRegion_constructor:
  "regionMap demo_client = Map.empty \<and>
   isValidBucketName demo_env (Some ''constructor'') \<and>
   getBucketRegion demo_env (demo_server 200 ''eu-west-1'') demo_client (Some ''constructor'') =
     (CbOk (PrototypeMember ''constructor''), demo_client) \<and>
   request_paths (new_events demo_client
     (snd (getBucketRegion demo_env (demo_server 200 ''eu-west-1'') demo_client
             (Some ''constructor'')))) = [] \<and>
   fst (getBucketRegion demo_env (demo_server 200 ''eu-west-1'') demo_client (Some ''b'')) =
     CbOk (RegionName ''eu-west-1'') \<and>
   request_paths (new_events demo_client
     (snd (getBucketRegion demo_env (demo_server 200 ''eu-west-1'') demo_client (Some ''b'')))) =
     [''/b?location'']"
proof -
  have valid: "isValidBucketName demo_env (Some ''constructor'')"
    by (simp add: demo_env_def truthy_opt_def)
  have run: "getBucketRegion demo_env (demo_server 200 ''eu-west-1'') demo_client
               (Some ''constructor'') =
             (CbOk (PrototypeMember ''constructor''), demo_client)"
    by (simp add: getBucketRegion_def cached_region_def object_prototype_keys_def template_def
        demo_env_def demo_client_def truthy_opt_def)
  have other: "getBucketRegion demo_env (demo_server 200 ''eu-west-1'') demo_client (Some ''b'') =
      (CbOk (RegionName ''eu-west-1''),
       log (CacheInsert ''b'' ''eu-west-1'')
         ((log (Request (getBucketRegion_request demo_env demo_client (Some ''b'')) []) demo_client)
            \<lparr>regionMap := (regionMap demo_client)(''b'' \<mapsto> ''eu-west-1'')\<rparr>))"
    by (simp add: getBucketRegion_def cached_region_def object_prototype_keys_def template_def
        demo_env_def demo_client_def truthy_opt_def demo_server_def Let_def)
  show ?thesis
    unfolding run other
    by (simp add: valid new_events_def request_paths_def getBucketRegion_request_shape)
      (simp add: demo_client_def)
qed

lemma makeRequestStream_mismatch:
  assumes chk: "anonymous c \<or> length sha = 64"
    and bn: "bucketName options = Some b" "b \<noteq> []"
    and reg: "getBucketRegion env srv c (Some b) = (CbOk region, c1)"
    and resp: "srv (sign_request env c1 (getRequestOptions env c options) sha region) stream = Inr resp"
    and st: "statusCode resp \<noteq> expected"
  shows "\<exists>c'. makeRequestStream env srv c options stream sha expected =
              (CbError (getErrorTransformer env resp), c') \<and>
            regionMap c' b = None \<and>
            trace c' = trace c1 @
              [Request (sign_request env c1 (getRequestOptions env c options) sha region) stream,
               CacheDelete b,
               Callback (Some (getErrorTransformer env resp))]"
  using assms
  by (auto simp add: makeRequestStream_def inner_makeRequest_def Let_def truthy_opt_def template_def)

lemma removeBucket_evicts:
  assumes "isValidBucketName env (Some b)"
    and "makeRequest env srv c
           \<lparr>req_method = ''DELETE'', bucketName = Some b, objectName = None, query = None,
            headers = None\<rparr> [] 204 = (CbOk resp, c1)"
  shows "\<exists>c'. removeBucket env srv c b = (CbOk (), c') \<and> regionMap c' b = None \<and>
           trace c' = trace c1 @ [CacheDelete b]"
  using assms by (simp add: removeBucket_def)

lemma makeRequestStream_looks_up:
  assumes "cached_region c b = None" and "isValidBucketName env (Some b)"
    and "bucketName options = Some b" and "b \<noteq> []"
    and "anonymous c \<or> length sha = 64"
  shows "\<exists>evs. trace (snd (makeRequestStream env srv c options stream sha expected)) =
           trace c @ Request (getBucketRegion_request env c (Some b)) [] # evs"
proof -
  note lookup = getBucketRegion_lookup [OF assms(2) assms(1), of srv]
  show ?thesis
    using assms
    by (auto simp add: makeRequestStream_def inner_makeRequest_def Let_def truthy_opt_def lookup
        split: sum.splits)
qed

text \<open>
  Cache invalidation. When a request to bucket \<open>b\<close> issued through
  \<open>makeRequestStream\<close> receives a response whose status differs from the expected one,
  the cache entry of \<open>b\<close> is deleted and then the decoded error is passed to the
  callback: the trace ends with the request, the deletion and the callback, in this
  order. A successful \<open>removeBucket\<close> (the DELETE was answered with the expected 204)
  deletes the entry as well. Whenever the cache has no entry for \<open>b\<close>, and \<open>b\<close> is
  not a name that the cache object inherits, the next request for \<open>b\<close> first issues
  the lookup GET \<open>/b?location\<close>, whatever the server \<open>srv2\<close> then answers.
\<close>

lemma region_cache_invalidation_own_entries:
  "((anonymous c \<or> length sha = 64) \<and> bucketName options = Some b \<and> b \<noteq> [] \<and>
    getBucketRegion env srv c (Some b) = (CbOk region, c1) \<and>
    srv (sign_request env c1 (getRequestOptions env c options) sha region) stream = Inr resp \<and>
    statusCode resp \<noteq> expected \<longrightarrow>
    (\<exists>c'. makeRequestStream env srv c options stream sha expected =
             (CbError (getErrorTransformer env resp), c') \<and>
           regionMap c' b = None \<and>
           trace c' = trace c1 @
             [Request (sign_request env c1 (getRequestOptions env c options) sha region) stream,
              CacheDelete b,
              Callback (Some (getErrorTransformer env resp))])) \<and>
   (isValidBucketName env (Some b) \<and>
    makeRequest env srv c
      \<lparr>req_method = ''DELETE'', bucketName = Some b, objectName = None, query = None,
       headers = None\<rparr> [] 204 = (CbOk resp, c1) \<longrightarrow>
    (\<exists>c'. removeBucket env srv c b = (CbOk (), c') \<and> regionMap c' b = None \<and>
           trace c' = trace c1 @ [CacheDelete b])) \<and>
   (regionMap c b = None \<and> b \<notin> set object_prototype_keys \<and> isValidBucketName env (Some b) \<and>
    bucketName options = Some b \<and> b \<noteq> [] \<and> (anonymous c \<or> length sha = 64) \<longrightarrow>
    (\<exists>evs. trace (snd (makeRequestStream env srv2 c options stream sha expected)) =
            trace c @ Request (getBucketRegion_request env c (Some b)) [] # evs) \<and>
    ro_path (getBucketRegion_request env c (Some b)) = ''/'' @ b @ ''?location'')"
proof (intro conjI impI)
  assume "(anonymous c \<or> length sha = 64) \<and> bucketName options = Some b \<and> b \<noteq> [] \<and>
    getBucketRegion env srv c (Some b) = (CbOk region, c1) \<and>
    srv (sign_request env c1 (getRequestOptions env c options) sha region) stream = Inr resp \<and>
    statusCode resp \<noteq> expected"
  then show "\<exists>c'. makeRequestStream env srv c options stream sha expected =
             (CbError (getErrorTransformer env resp), c') \<and>
           regionMap c' b = None \<and>
           trace c' = trace c1 @
             [Request (sign_request env c1 (getRequestOptions env c options) sha region) stream,
              CacheDelete b,
              Callback (Some (getErrorTransformer env resp))]"
    using makeRequestStream_mismatch by blast
next
  assume "isValidBucketName env (Some b) \<and>
    makeRequest env srv c
      \<lparr>req_method = ''DELETE'', bucketName = Some b, objectName = None, query = None,
       headers = None\<rparr> [] 204 = (CbOk resp, c1)"
  then show "\<exists>c'. removeBucket env srv c b = (CbOk (), c') \<and> regionMap c' b = None \<and>
           trace c' = trace c1 @ [CacheDelete b]"
    using removeBucket_evicts by blast
next
  assume h: "regionMap c b = None \<and> b \<notin> set object_prototype_keys \<and>
    isValidBucketName env (Some b) \<and>
    bucketName options = Some b \<and> b \<noteq> [] \<and> (anonymous c \<or> length sha = 64)"
  then show "\<exists>evs. trace (snd (makeRequestStream env srv2 c options stream sha expected)) =
            trace c @ Request (getBucketRegion_request env c (Some b)) [] # evs"
    using makeRequestStream_looks_up [of c b env options sha srv2 stream expected]
    by (simp add: cached_region_None_iff)
  show "ro_path (getBucketRegion_request env c (Some b)) = ''/'' @ b @ ''?location''"
    by (simp add: getBucketRegion_request_shape)
qed

lemma makeRequestStream_inherited:
  assumes "isValidBucketName env (Some b)" and "regionMap c b = None"
    and "b \<in> set object_prototype_keys"
    and "bucketName options = Some b" and "b \<noteq> []" and "anonymous c \<or> length sha = 64"
  shows "makeRequestStream env srv c options stream sha expected =
     inner_makeRequest env srv c options (getRequestOptions env c options) stream sha expected
       (PrototypeMember b)"
  using assms
  by (auto simp add: makeRequestStream_def Let_def truthy_opt_def getBucketRegion_inherited)

lemma inner_makeRequest_paths:
  "request_paths (new_events c
     (snd (inner_makeRequest env srv c options ro stream sha expected region))) = [ro_path ro]"
  by (simp add: inner_makeRequest_def Let_def new_events_def request_paths_def split: sum.splits)

text \<open>
  C3. The claim has the next request for a bucket issue the \<open>?location\<close> lookup again
  after a response with an unexpected status, and after a successful \<open>removeBucket\<close>;
  the comment in \<open>makeRequestStream\<close> announces the invalidation for all errors so that
  the region is found again. Both places use \<open>delete this.regionMap[bucketName]\<close>,
  which removes an entry of the cache object itself and nothing that the object
  inherits. For the bucket \<open>constructor\<close>, on a client that has cached nothing: a GET
  answered 400 is sent without any lookup, the deletion is performed and the error
  reaches the callback, but the read of the cache still finds the inherited member, and
  the next request is again sent without the lookup. The same holds after
  \<open>removeBucket\<close> was answered 204.
\<close>

theorem region_cache_constructor_not_evicted:
  "(let opts = \<lparr>req_method = ''GET'', bucketName = Some ''constructor'', objectName = Some ''o'',
                 query = None, headers = None\<rparr>;
        sha = replicate 64 (CHR ''0'');
        failed = makeRequestStream demo_env (demo_server 400 ''bad'') demo_client opts [] sha 200;
        again = makeRequestStream demo_env (demo_server 200 []) (snd failed) opts [] sha 200;
        removed = removeBucket demo_env (demo_server 204 []) demo_client ''constructor'';
        after = makeRequestStream demo_env (demo_server 200 []) (snd removed) opts [] sha 200
    in regionMap demo_client = Map.empty \<and>
       fst failed = CbError (S3Error ''bad'') \<and>
       request_paths (trace (snd failed)) = [''/constructor/o''] \<and>
       tl (trace (snd failed)) = [CacheDelete ''constructor'', Callback (Some (S3Error ''bad''))] \<and>
       regionMap (snd failed) ''constructor'' = None \<and>
       cached_region (snd failed) ''constructor'' = Some (PrototypeMember ''constructor'') \<and>
       request_paths (new_events (snd failed) (snd again)) = [''/constructor/o''] \<and>
       fst removed = CbOk () \<and>
       request_paths (trace (snd removed)) = [''/constructor''] \<and>
       regionMap (snd removed) ''constructor'' = None \<and>
       cached_region (snd removed) ''constructor'' = Some (PrototypeMember ''constructor'') \<and>
       request_paths (new_events (snd removed) (snd after)) = [''/constructor/o''])"
proof -
  let ?opts = "\<lparr>req_method = ''GET'', bucketName = Some ''constructor'', objectName = Some ''o'',
                 query = None, headers = None\<rparr>"
  let ?sha = "replicate 64 (CHR ''0'')"
  let ?failed = "makeRequestStream demo_env (demo_server 400 ''bad'') demo_client ?opts [] ?sha 200"
  let ?removed = "removeBucket demo_env (demo_server 204 []) demo_client ''constructor''"
  have valid: "isValidBucketName demo_env (Some ''constructor'')"
    by (simp add: demo_env_def truthy_opt_def)
  have keys: "''constructor'' \<in> set object_prototype_keys"
    by (simp add: object_prototype_keys_def)
  have empty: "regionMap demo_client = Map.empty"
    by (simp add: demo_client_def)
  have failed: "?failed =
      (CbError (S3Error ''bad''),
       demo_client\<lparr>regionMap := (regionMap demo_client)(''constructor'' := None),
         trace := [Request (sign_request demo_env demo_client
                              (getRequestOptions demo_env demo_client ?opts) ?sha
                              (PrototypeMember ''constructor'')) [],
                   CacheDelete ''constructor'', Callback (Some (S3Error ''bad''))]\<rparr>)"
    by (simp add: makeRequestStream_def inner_makeRequest_def Let_def truthy_opt_def template_def
        getBucketRegion_inherited [OF valid _ keys] empty demo_server_def log_def)
      (simp add: demo_env_def demo_client_def)
  let ?c1 = "demo_client\<lparr>regionMap := (regionMap demo_client)(''constructor'' := None),
         trace := [Request (sign_request demo_env demo_client
                              (getRequestOptions demo_env demo_client ?opts) ?sha
                              (PrototypeMember ''constructor'')) [],
                   CacheDelete ''constructor'', Callback (Some (S3Error ''bad''))]\<rparr>"
  let ?del = "\<lparr>req_method = ''DELETE'', bucketName = Some ''constructor'', objectName = None,
                query = None, headers = Some [(''content-length'', ''0'')]\<rparr>"
  let ?c2 = "demo_client\<lparr>regionMap := (regionMap demo_client)(''constructor'' := None),
         trace := [Request (sign_request demo_env demo_client
                              (getRequestOptions demo_env demo_client ?del) ?sha
                              (PrototypeMember ''constructor'')) [],
                   Callback None, CacheDelete ''constructor'']\<rparr>"
  have removed: "?removed = (CbOk (), ?c2)"
    by (simp add: removeBucket_def valid makeRequest_def makeRequestStream_def
        inner_makeRequest_def Let_def truthy_opt_def template_def
        getBucketRegion_inherited [OF valid _ keys] empty demo_server_def log_def show_defs)
      (simp add: demo_env_def demo_client_def)
  have none: "regionMap ?c1 ''constructor'' = None" "regionMap ?c2 ''constructor'' = None"
    by simp_all
  have again: "makeRequestStream demo_env (demo_server 200 []) c ?opts [] ?sha 200 =
      inner_makeRequest demo_env (demo_server 200 []) c ?opts
        (getRequestOptions demo_env c ?opts) [] ?sha 200 (PrototypeMember ''constructor'')"
    if "regionMap c ''constructor'' = None" for c
    using that by (simp add: makeRequestStream_inherited [OF valid _ keys])
  have path: "ro_path (getRequestOptions demo_env ?c1 ?opts) = ''/constructor/o''"
    "ro_path (getRequestOptions demo_env ?c2 ?opts) = ''/constructor/o''"
    "ro_path (getRequestOptions demo_env demo_client ?opts) = ''/constructor/o''"
    "ro_path (getRequestOptions demo_env demo_client ?del) = ''/constructor''"
    by (simp_all add: getRequestOptions_def Let_def demo_env_def demo_client_def truthy_opt_def
        template_def)
  show ?thesis
    unfolding Let_def failed removed snd_conv fst_conv again [OF none(1)] again [OF none(2)]
      inner_makeRequest_paths path
    by (simp add: empty cached_region_def keys request_paths_def path)
qed
subsection \<open>makeBucket\<close>

lemma makeBucket_reqOptions_shape:
  "ro_method (makeBucket_reqOptions env c b acl payload) = ''PUT''"
  "\<not> virtualHostStyle c \<Longrightarrow> b \<noteq> [] \<Longrightarrow> ro_path (makeBucket_reqOptions env c b acl payload) = ''/'' @ b"
  "\<not> virtualHostStyle c \<Longrightarrow> ro_host (makeBucket_reqOptions env c b acl payload) = host c"
  "map_of (ro_headers (makeBucket_reqOptions env c b acl payload)) ''x-amz-acl'' = Some acl"
  by (simp_all add: makeBucket_reqOptions_def sign_request_keeps_header getRequestOptions_def Let_def
      truthy_opt_def template_def toLowerCase_def lower_char_def update_conv')

lemma makeBucket_run:
  assumes "isValidBucketName env (Some b)" and "acl \<noteq> []" and "isValidACL env acl"
  shows "makeBucket env srv c b acl region =
     ((case srv (makeBucket_reqOptions env c b acl (makeBucket_payload env region))
                (makeBucket_payload env region) of
         Inl e \<Rightarrow> CbError e
       | Inr resp \<Rightarrow> if statusCode resp = 200 then CbOk () else CbError (getErrorTransformer env resp)),
      log (Request (makeBucket_reqOptions env c b acl (makeBucket_payload env region))
                   (makeBucket_payload env region)) c)"
  using assms by (simp add: makeBucket_def Let_def split: sum.splits)

text \<open>
  C5 (as amended). With a valid bucket name and ACL, \<open>makeBucket\<close> issues exactly one
  request: a PUT, on path \<open>/{bucket}\<close> when the client uses path style, with the header
  \<open>x-amz-acl\<close> set to the ACL, signed for the region \<open>us-east-1\<close> unless the client
  is anonymous, and it succeeds exactly when the status is 200. The payload is empty when
  the region argument is the empty string; for every non-empty region, \<open>us-east-1\<close>
  included, it is the \<open>CreateBucketConfiguration\<close> document with that
  \<open>LocationConstraint\<close>.
\<close>

theorem makeBucket_request:
  assumes "isValidBucketName env (Some b)" and "acl \<noteq> []" and "isValidACL env acl"
  shows "makeBucket env srv c b acl region =
     ((case srv (makeBucket_reqOptions env c b acl (makeBucket_payload env region))
                (makeBucket_payload env region) of
         Inl e \<Rightarrow> CbError e
       | Inr resp \<Rightarrow> if statusCode resp = 200 then CbOk () else CbError (getErrorTransformer env resp)),
      log (Request (makeBucket_reqOptions env c b acl (makeBucket_payload env region))
                   (makeBucket_payload env region)) c) \<and>
   makeBucket_payload env [] = [] \<and>
   (region \<noteq> [] \<longrightarrow>
      makeBucket_payload env region =
        ''<CreateBucketConfiguration xmlns='' @ [CHR 0x22] @
        ''http://s3.amazonaws.com/doc/2006-03-01/'' @ [CHR 0x22] @ ''>'' @
        ''<LocationConstraint>'' @ xml_escape env region @ ''</LocationConstraint>'' @
        ''</CreateBucketConfiguration>'') \<and>
   ro_method (makeBucket_reqOptions env c b acl (makeBucket_payload env region)) = ''PUT'' \<and>
   (\<not> virtualHostStyle c \<and> b \<noteq> [] \<longrightarrow>
      ro_path (makeBucket_reqOptions env c b acl (makeBucket_payload env region)) = ''/'' @ b) \<and>
   map_of (ro_headers (makeBucket_reqOptions env c b acl (makeBucket_payload env region)))
     ''x-amz-acl'' = Some acl \<and>
   (\<not> anonymous c \<longrightarrow>
      (\<exists>stamped.
         map_of (ro_headers (makeBucket_reqOptions env c b acl (makeBucket_payload env region)))
           ''authorization'' = Some (signV4 env stamped (accessKey c) (secretKey c) (RegionName ''us-east-1'')) \<and>
         ro_method stamped = ''PUT'' \<and>
         ro_path stamped = ro_path (makeBucket_reqOptions env c b acl (makeBucket_payload env region)) \<and>
         map_of (ro_headers stamped) ''x-amz-content-sha256'' =
           Some (sha256_hex env (makeBucket_payload env region))))"
proof (intro conjI impI)
  show "makeBucket env srv c b acl region =
     ((case srv (makeBucket_reqOptions env c b acl (makeBucket_payload env region))
                (makeBucket_payload env region) of
         Inl e \<Rightarrow> CbError e
       | Inr resp \<Rightarrow> if statusCode resp = 200 then CbOk () else CbError (getErrorTransformer env resp)),
      log (Request (makeBucket_reqOptions env c b acl (makeBucket_payload env region))
                   (makeBucket_payload env region)) c)"
    using assms by (rule makeBucket_run)
  show "makeBucket_payload env [] = []"
    by (simp add: makeBucket_payload_def)
  show "ro_method (makeBucket_reqOptions env c b acl (makeBucket_payload env region)) = ''PUT''"
    by (simp add: makeBucket_reqOptions_shape)
  show "map_of (ro_headers (makeBucket_reqOptions env c b acl (makeBucket_payload env region)))
     ''x-amz-acl'' = Some acl"
    by (simp add: makeBucket_reqOptions_shape)
next
  assume "region \<noteq> []"
  then show "makeBucket_payload env region =
        ''<CreateBucketConfiguration xmlns='' @ [CHR 0x22] @
        ''http://s3.amazonaws.com/doc/2006-03-01/'' @ [CHR 0x22] @ ''>'' @
        ''<LocationConstraint>'' @ xml_escape env region @ ''</LocationConstraint>'' @
        ''</CreateBucketConfiguration>''"
    by (simp add: makeBucket_payload_def createBucketConfiguration_xml_def)
next
  assume "\<not> virtualHostStyle c \<and> b \<noteq> []"
  then show "ro_path (makeBucket_reqOptions env c b acl (makeBucket_payload env region)) = ''/'' @ b"
    by (simp add: makeBucket_reqOptions_shape)
next
  assume "\<not> anonymous c"
  then show "\<exists>stamped.
         map_of (ro_headers (makeBucket_reqOptions env c b acl (makeBucket_payload env region)))
           ''authorization'' = Some (signV4 env stamped (accessKey c) (secretKey c) (RegionName ''us-east-1'')) \<and>
         ro_method stamped = ''PUT'' \<and>
         ro_path stamped = ro_path (makeBucket_reqOptions env c b acl (makeBucket_payload env region)) \<and>
         map_of (ro_headers stamped) ''x-amz-content-sha256'' =
           Some (sha256_hex env (makeBucket_payload env region))"
  proof (intro exI [of _ "stamp_request env
        (getRequestOptions env c \<lparr>req_method = ''PUT'', bucketName = Some b, objectName = None,
           query = None, headers = Some [(''x-amz-acl'', acl)]\<rparr>)
        (sha256_hex env (makeBucket_payload env region))"] conjI)
    assume na: "\<not> anonymous c"
    show "map_of (ro_headers (makeBucket_reqOptions env c b acl (makeBucket_payload env region)))
        ''authorization'' =
      Some (signV4 env (stamp_request env
        (getRequestOptions env c \<lparr>req_method = ''PUT'', bucketName = Some b, objectName = None,
           query = None, headers = Some [(''x-amz-acl'', acl)]\<rparr>)
        (sha256_hex env (makeBucket_payload env region))) (accessKey c) (secretKey c) (RegionName ''us-east-1''))"
      unfolding makeBucket_reqOptions_def using na by (rule sign_request_authorization)
  qed (simp_all add: makeBucket_reqOptions_def, simp add: getRequestOptions_def Let_def)
qed

theorem makeBucket_request_witness:
  "isValidBucketName demo_env (Some ''b'') \<and> ''private'' \<noteq> [] \<and> isValidACL demo_env ''private'' \<and>
   \<not> virtualHostStyle demo_client \<and> \<not> anonymous demo_client \<and>
   makeBucket demo_env (demo_server 200 []) demo_client ''b'' ''private'' [] =
     (CbOk (),
      demo_client\<lparr>trace :=
        [Request \<lparr>ro_method = ''PUT'', ro_host = ''localhost'', ro_port = Some 9000,
                  ro_protocol = ''http:'', ro_path = ''/b'',
                  ro_headers = [(''host'', ''localhost:9000''), (''x-amz-acl'', ''private''),
                                (''x-amz-date'', ''20160101T000000Z''),
                                (''x-amz-content-sha256'', replicate 64 (CHR ''0'')),
                                (''authorization'', ''AWS4-HMAC-SHA256 AK/us-east-1'')]\<rparr> []]\<rparr>) \<and>
   request_payloads (trace (snd (makeBucket demo_env (demo_server 200 []) demo_client ''b''
                                   ''private'' ''eu-west-1''))) =
     [''<CreateBucketConfiguration xmlns='' @ [CHR 0x22] @
      ''http://s3.amazonaws.com/doc/2006-03-01/'' @ [CHR 0x22] @ ''>'' @
      ''<LocationConstraint>eu-west-1</LocationConstraint></CreateBucketConfiguration>'']"
proof -
  have v: "isValidBucketName demo_env (Some ''b'')" "''private'' \<noteq> []" "isValidACL demo_env ''private''"
    "\<not> virtualHostStyle demo_client" "\<not> anonymous demo_client"
    by (simp_all add: demo_env_def demo_client_def truthy_opt_def)
  have ro: "makeBucket_reqOptions demo_env demo_client ''b'' ''private'' [] =
      \<lparr>ro_method = ''PUT'', ro_host = ''localhost'', ro_port = Some 9000,
                  ro_protocol = ''http:'', ro_path = ''/b'',
                  ro_headers = [(''host'', ''localhost:9000''), (''x-amz-acl'', ''private''),
                                (''x-amz-date'', ''20160101T000000Z''),
                                (''x-amz-content-sha256'', replicate 64 (CHR ''0'')),
                                (''authorization'', ''AWS4-HMAC-SHA256 AK/us-east-1'')]\<rparr>"
    by (simp add: makeBucket_reqOptions_def request_defs demo_defs show_defs)
  have x: "xml_escape demo_env ''eu-west-1'' = ''eu-west-1''"
    by (simp add: demo_env_def)
  have a: "makeBucket demo_env (demo_server 200 []) demo_client ''b'' ''private'' [] =
     (CbOk (), log (Request (makeBucket_reqOptions demo_env demo_client ''b'' ''private'' []) []) demo_client)"
    using makeBucket_request [OF v(1,2,3), of "demo_server 200 []" demo_client "[]"]
    by (simp add: demo_server_def)
  have b: "makeBucket_payload demo_env ''eu-west-1'' =
      ''<CreateBucketConfiguration xmlns='' @ [CHR 0x22] @
      ''http://s3.amazonaws.com/doc/2006-03-01/'' @ [CHR 0x22] @ ''>'' @
      ''<LocationConstraint>eu-west-1</LocationConstraint></CreateBucketConfiguration>''"
    using makeBucket_request [OF v(1,2,3), of "demo_server 200 []" demo_client "''eu-west-1''"] x
    by simp
  have c: "request_payloads (trace (snd (makeBucket demo_env (demo_server 200 []) demo_client ''b''
                                   ''private'' ''eu-west-1''))) = [makeBucket_payload demo_env ''eu-west-1'']"
    using makeBucket_request [OF v(1,2,3), of "demo_server 200 []" demo_client "''eu-west-1''"]
    by (simp add: request_payloads_def demo_client_def)
  show ?thesis
    using v a b c ro by (simp add: log_def demo_client_def)
qed

text \<open>
  The claim as stated has \<open>makeBucket("b", "private", "us-east-1")\<close> send an empty
  body; the body sent is the configuration document naming \<open>us-east-1\<close>.
\<close>

theorem makeBucket_us_east_1_counterexample:
  "request_payloads (trace (snd (makeBucket demo_env (demo_server 200 []) demo_client ''b''
                                   ''private'' ''us-east-1''))) =
     [''<CreateBucketConfiguration xmlns='' @ [CHR 0x22] @
      ''http://s3.amazonaws.com/doc/2006-03-01/'' @ [CHR 0x22] @ ''>'' @
      ''<LocationConstraint>us-east-1</LocationConstraint></CreateBucketConfiguration>'']"
  by (simp add: makeBucket_def makeBucket_payload_def createBucketConfiguration_xml_def
      request_payloads_def log_def demo_defs truthy_opt_def Let_def)

subsection \<open>fGetObject\<close>

lemma fGetObject_after_stat:
  assumes "isValidBucketName env (Some b)" and "isValidObjectName env ob"
    and "statObject env srv c b ob = (CbOk st, c1)"
    and "path_dirname env filePath \<noteq> ''.''" and "mkdirp env (path_dirname env filePath) = None"
  shows "fGetObject env srv c files b ob filePath =
     (case fGetObject_part env srv c1 files b ob filePath st True of
        (Escaped e, partFile, c2, files2) \<Rightarrow> (Thrown e, c2, files2)
      | (Rename passed, partFile, c2, files2) \<Rightarrow>
          (case fs_rename files2 (Some partFile) filePath of (r, files3) \<Rightarrow> (r, c2, files3)))"
  using assms by (simp add: fGetObject_def Let_def)

lemma fGetObject_part_complete:
  assumes "files (filePath @ ''.'' @ stat_etag st @ ''.part.minio'') = Some d"
    and "stat_size st = Some (int (length d))"
  shows "fGetObject_part env srv c1 files b ob filePath st has_cb =
     (Rename None, filePath @ ''.'' @ stat_etag st @ ''.part.minio'', c1, files)"
  using assms by (simp add: fGetObject_part_def Let_def)

lemma fGetObject_part_resume:
  assumes "isValidBucketName env (Some b)" and "isValidObjectName env ob"
    and "files (filePath @ ''.'' @ stat_etag st @ ''.part.minio'') = Some d"
    and "stat_size st = Some n" and "int (length d) \<noteq> n"
    and "getPartialObject env srv c1 b ob (int (length d)) 0 = (CbOk resp, c2)"
    and "bodyError resp = None" and "int (length d) + int (length (body resp)) = n"
  shows "fGetObject_part env srv c1 files b ob filePath st True =
     (Rename None, filePath @ ''.'' @ stat_etag st @ ''.part.minio'', c2,
      files(filePath @ ''.'' @ stat_etag st @ ''.part.minio'' \<mapsto> d @ body resp))"
  using assms by (auto simp add: fGetObject_part_def Let_def)

lemma fGetObject_part_fresh:
  assumes "isValidBucketName env (Some b)" and "isValidObjectName env ob"
    and "files (filePath @ ''.'' @ stat_etag st @ ''.part.minio'') = None"
    and "getPartialObject env srv c1 b ob 0 0 = (CbOk resp, c2)"
    and "bodyError resp = None" and "stat_size st = Some (int (length (body resp)))"
  shows "fGetObject_part env srv c1 files b ob filePath st True =
     (Rename None, filePath @ ''.'' @ stat_etag st @ ''.part.minio'', c2,
      files(filePath @ ''.'' @ stat_etag st @ ''.part.minio'' \<mapsto> body resp))"
  using assms by (auto simp add: fGetObject_part_def Let_def)

text \<open>
  C6 (as amended). For a file path whose directory is not \<open>.\<close> (and can be created),
  and an object whose HEAD succeeds, \<open>fGetObject\<close> works on the part file
  \<open>{filePath}.{etag}.part.minio\<close>. If the part file exists with the size of the object,
  nothing is downloaded (the client is as the HEAD left it) and the part file is renamed to
  the file path. If it exists with a smaller size, the bytes from that offset on are fetched
  (\<open>getPartialObject\<close> with the size as offset and length 0) and appended to it. If it
  does not exist, it is created and the whole object is fetched into it. When the part
  file then has the size of the object, it is renamed to the file path and the callback
  gets no error.
\<close>

theorem fGetObject_part_file:
  assumes "isValidBucketName env (Some b)" and "isValidObjectName env ob"
    and "statObject env srv c b ob = (CbOk st, c1)"
    and "path_dirname env filePath \<noteq> ''.''" and "mkdirp env (path_dirname env filePath) = None"
  shows "(files (filePath @ ''.'' @ stat_etag st @ ''.part.minio'') = Some d \<and>
          stat_size st = Some (int (length d)) \<longrightarrow>
            fGetObject env srv c files b ob filePath =
              (CbOk (), c1,
               (files(filePath @ ''.'' @ stat_etag st @ ''.part.minio'' := None))(filePath \<mapsto> d))) \<and>
         (files (filePath @ ''.'' @ stat_etag st @ ''.part.minio'') = Some d \<and>
          stat_size st = Some n \<and> int (length d) \<noteq> n \<and>
          getPartialObject env srv c1 b ob (int (length d)) 0 = (CbOk resp, c2) \<and>
          bodyError resp = None \<and> int (length d) + int (length (body resp)) = n \<longrightarrow>
            fGetObject env srv c files b ob filePath =
              (CbOk (), c2,
               (files(filePath @ ''.'' @ stat_etag st @ ''.part.minio'' := None))
                 (filePath \<mapsto> d @ body resp))) \<and>
         (files (filePath @ ''.'' @ stat_etag st @ ''.part.minio'') = None \<and>
          getPartialObject env srv c1 b ob 0 0 = (CbOk resp, c2) \<and>
          bodyError resp = None \<and> stat_size st = Some (int (length (body resp))) \<longrightarrow>
            fGetObject env srv c files b ob filePath =
              (CbOk (), c2,
               (files(filePath @ ''.'' @ stat_etag st @ ''.part.minio'' := None))
                 (filePath \<mapsto> body resp)))"
proof (intro conjI impI)
  note start = fGetObject_after_stat [OF assms, of files]
  {
    assume "files (filePath @ ''.'' @ stat_etag st @ ''.part.minio'') = Some d \<and>
          stat_size st = Some (int (length d))"
    then show "fGetObject env srv c files b ob filePath =
              (CbOk (), c1,
               (files(filePath @ ''.'' @ stat_etag st @ ''.part.minio'' := None))(filePath \<mapsto> d))"
      by (simp add: start fGetObject_part_complete fs_rename_def)
  }
  {
    assume h: "files (filePath @ ''.'' @ stat_etag st @ ''.part.minio'') = Some d \<and>
          stat_size st = Some n \<and> int (length d) \<noteq> n \<and>
          getPartialObject env srv c1 b ob (int (length d)) 0 = (CbOk resp, c2) \<and>
          bodyError resp = None \<and> int (length d) + int (length (body resp)) = n"
    then have "fGetObject_part env srv c1 files b ob filePath st True =
       (Rename None, filePath @ ''.'' @ stat_etag st @ ''.part.minio'', c2,
        files(filePath @ ''.'' @ stat_etag st @ ''.part.minio'' \<mapsto> d @ body resp))"
      using assms(1,2) by (intro fGetObject_part_resume) simp_all
    then show "fGetObject env srv c files b ob filePath =
              (CbOk (), c2,
               (files(filePath @ ''.'' @ stat_etag st @ ''.part.minio'' := None))
                 (filePath \<mapsto> d @ body resp))"
      by (simp add: start fs_rename_def)
  }
  {
    assume h: "files (filePath @ ''.'' @ stat_etag st @ ''.part.minio'') = None \<and>
          getPartialObject env srv c1 b ob 0 0 = (CbOk resp, c2) \<and>
          bodyError resp = None \<and> stat_size st = Some (int (length (body resp)))"
    then have "fGetObject_part env srv c1 files b ob filePath st True =
       (Rename None, filePath @ ''.'' @ stat_etag st @ ''.part.minio'', c2,
        files(filePath @ ''.'' @ stat_etag st @ ''.part.minio'' \<mapsto> body resp))"
      using assms(1,2) by (intro fGetObject_part_fresh) simp_all
    then show "fGetObject env srv c files b ob filePath =
              (CbOk (), c2,
               (files(filePath @ ''.'' @ stat_etag st @ ''.part.minio'' := None))
                 (filePath \<mapsto> body resp))"
      by (simp add: start fs_rename_def)
  }
qed


text \<open>
  What the waterfall does when a step fails is outside the amended claim: its final
  callback is the wrapper \<open>rename\<close>, which takes no argument, so the part file is
  renamed after a failed download as well, and the callback gets the result of the
  renaming.
\<close>

lemma fGetObject_renames_after_failed_download:
  assumes "isValidBucketName env (Some b)" and "isValidObjectName env ob"
    and "statObject env srv c b ob = (CbOk st, c1)"
    and "path_dirname env filePath \<noteq> ''.''" and "mkdirp env (path_dirname env filePath) = None"
    and "files (filePath @ ''.'' @ stat_etag st @ ''.part.minio'') = Some d"
    and "stat_size st \<noteq> Some (int (length d))"
    and "getPartialObject env srv c1 b ob (int (length d)) 0 = (CbError e, c2)"
  shows "fGetObject env srv c files b ob filePath =
     (CbOk (), c2,
      (files(filePath @ ''.'' @ stat_etag st @ ''.part.minio'' := None))(filePath \<mapsto> d))"
  using assms
  by (simp add: fGetObject_after_stat fGetObject_part_def fs_rename_def Let_def)

lemmas stat_defs = statObject_def to_number_def digit_value_def strip_quotes_def

lemma demo_stat:
  "statObject demo_env demo_object_server demo_client ''b'' ''o'' =
     (CbOk \<lparr>stat_size = Some 3, stat_etag = ''e'', stat_contentType = None,
            stat_lastModified = None\<rparr>,
      snd (statObject demo_env demo_object_server demo_client ''b'' ''o''))"
  by (simp add: stat_defs request_defs demo_defs demo_object_server_def show_defs)

lemma demo_stat_client:
  "regionMap (snd (statObject demo_env demo_object_server demo_client ''b'' ''o'')) ''b'' = Some ''us-east-1''"
  "request_paths (trace (snd (statObject demo_env demo_object_server demo_client ''b'' ''o''))) =
     [''/b?location'', ''/b/o'']"
  "anonymous (snd (statObject demo_env demo_object_server demo_client ''b'' ''o'')) = False"
  "virtualHostStyle (snd (statObject demo_env demo_object_server demo_client ''b'' ''o'')) = False"
  "host (snd (statObject demo_env demo_object_server demo_client ''b'' ''o'')) = ''localhost''"
  "port (snd (statObject demo_env demo_object_server demo_client ''b'' ''o'')) = 9000"
  "protocol (snd (statObject demo_env demo_object_server demo_client ''b'' ''o'')) = ''http:''"
  "accessKey (snd (statObject demo_env demo_object_server demo_client ''b'' ''o'')) = ''AK''"
  "secretKey (snd (statObject demo_env demo_object_server demo_client ''b'' ''o'')) = ''SK''"
  by (simp_all add: stat_defs request_defs demo_defs demo_object_server_def show_defs request_paths_def)

lemma demo_get_tail:
  "getPartialObject demo_env demo_object_server
       (snd (statObject demo_env demo_object_server demo_client ''b'' ''o'')) ''b'' ''o'' 2 0 =
     (CbOk \<lparr>statusCode = 206, resp_headers = [(''etag'', ''e'')], body = ''c'', bodyError = None\<rparr>,
      snd (getPartialObject demo_env demo_object_server
             (snd (statObject demo_env demo_object_server demo_client ''b'' ''o'')) ''b'' ''o'' 2 0))"
proof -
  have "fst (getPartialObject demo_env demo_object_server
       (snd (statObject demo_env demo_object_server demo_client ''b'' ''o'')) ''b'' ''o'' 2 0) =
     CbOk \<lparr>statusCode = 206, resp_headers = [(''etag'', ''e'')], body = ''c'', bodyError = None\<rparr>"
    by (simp add: getPartialObject_def getPartialObject_range_def request_defs demo_stat_client
        demo_env_fields demo_object_server_def show_defs)
  then show ?thesis
    by (simp add: prod_eq_iff)
qed

lemma demo_get_whole:
  "getPartialObject demo_env demo_object_server
       (snd (statObject demo_env demo_object_server demo_client ''b'' ''o'')) ''b'' ''o'' 0 0 =
     (CbOk \<lparr>statusCode = 200, resp_headers = [(''etag'', ''e'')], body = ''abc'', bodyError = None\<rparr>,
      snd (getPartialObject demo_env demo_object_server
             (snd (statObject demo_env demo_object_server demo_client ''b'' ''o'')) ''b'' ''o'' 0 0))"
proof -
  have "fst (getPartialObject demo_env demo_object_server
       (snd (statObject demo_env demo_object_server demo_client ''b'' ''o'')) ''b'' ''o'' 0 0) =
     CbOk \<lparr>statusCode = 200, resp_headers = [(''etag'', ''e'')], body = ''abc'', bodyError = None\<rparr>"
    by (simp add: getPartialObject_def getPartialObject_range_def request_defs demo_stat_client
        demo_env_fields demo_object_server_def show_defs)
  then show ?thesis
    by (simp add: prod_eq_iff)
qed


lemma demo_get_whole_paths:
  "request_paths (trace (snd (getPartialObject demo_env demo_object_server
             (snd (statObject demo_env demo_object_server demo_client ''b'' ''o'')) ''b'' ''o'' 0 0))) =
     [''/b?location'', ''/b/o'', ''/b/o'']"
  by (simp add: getPartialObject_def getPartialObject_range_def request_defs demo_stat_client
        demo_env_fields demo_object_server_def show_defs request_paths_append)

theorem fGetObject_part_file_witness:
  "isValidBucketName demo_env (Some ''b'') \<and> isValidObjectName demo_env ''o'' \<and>
   path_dirname demo_env ''/tmp/f'' \<noteq> ''.'' \<and> mkdirp demo_env (path_dirname demo_env ''/tmp/f'') = None \<and>
   fGetObject demo_env demo_object_server demo_client [''/tmp/f.e.part.minio'' \<mapsto> ''abc''] ''b'' ''o'' ''/tmp/f'' =
     (CbOk (), snd (statObject demo_env demo_object_server demo_client ''b'' ''o''),
      [''/tmp/f'' \<mapsto> ''abc'']) \<and>
   request_paths (trace (snd (statObject demo_env demo_object_server demo_client ''b'' ''o''))) =
     [''/b?location'', ''/b/o''] \<and>
   fGetObject demo_env demo_object_server demo_client [''/tmp/f.e.part.minio'' \<mapsto> ''ab''] ''b'' ''o'' ''/tmp/f'' =
     (CbOk (),
      snd (getPartialObject demo_env demo_object_server
             (snd (statObject demo_env demo_object_server demo_client ''b'' ''o'')) ''b'' ''o'' 2 0),
      [''/tmp/f'' \<mapsto> ''abc'']) \<and>
   fGetObject demo_env demo_object_server demo_client Map.empty ''b'' ''o'' ''/tmp/f'' =
     (CbOk (),
      snd (getPartialObject demo_env demo_object_server
             (snd (statObject demo_env demo_object_server demo_client ''b'' ''o'')) ''b'' ''o'' 0 0),
      [''/tmp/f'' \<mapsto> ''abc''])"
proof -
  let ?st = "\<lparr>stat_size = Some 3, stat_etag = ''e'', stat_contentType = None,
            stat_lastModified = None\<rparr>"
  let ?c1 = "snd (statObject demo_env demo_object_server demo_client ''b'' ''o'')"
  have v: "isValidBucketName demo_env (Some ''b'')" "isValidObjectName demo_env ''o''"
    "path_dirname demo_env ''/tmp/f'' \<noteq> ''.''" "mkdirp demo_env (path_dirname demo_env ''/tmp/f'') = None"
    by (simp_all add: demo_env_def truthy_opt_def)
  note inst = fGetObject_part_file [OF v(1,2) demo_stat v(3,4)]
  have a: "fGetObject demo_env demo_object_server demo_client [''/tmp/f.e.part.minio'' \<mapsto> ''abc''] ''b'' ''o'' ''/tmp/f'' =
     (CbOk (), ?c1, [''/tmp/f'' \<mapsto> ''abc''])"
    using inst [where files = "[''/tmp/f.e.part.minio'' \<mapsto> ''abc'']" and d = "''abc''"]
    by simp
  have b: "fGetObject demo_env demo_object_server demo_client [''/tmp/f.e.part.minio'' \<mapsto> ''ab''] ''b'' ''o'' ''/tmp/f'' =
     (CbOk (), snd (getPartialObject demo_env demo_object_server ?c1 ''b'' ''o'' 2 0),
      [''/tmp/f'' \<mapsto> ''abc''])"
    using inst [where files = "[''/tmp/f.e.part.minio'' \<mapsto> ''ab'']" and d = "''ab''" and n = 3
        and resp = "\<lparr>statusCode = 206, resp_headers = [(''etag'', ''e'')], body = ''c'', bodyError = None\<rparr>"
        and ?c2.0 = "snd (getPartialObject demo_env demo_object_server ?c1 ''b'' ''o'' 2 0)"]
      demo_get_tail
    by simp
  have c: "fGetObject demo_env demo_object_server demo_client Map.empty ''b'' ''o'' ''/tmp/f'' =
     (CbOk (), snd (getPartialObject demo_env demo_object_server ?c1 ''b'' ''o'' 0 0),
      [''/tmp/f'' \<mapsto> ''abc''])"
    using inst [where files = "Map.empty" 
        and resp = "\<lparr>statusCode = 200, resp_headers = [(''etag'', ''e'')], body = ''abc'', bodyError = None\<rparr>"
        and ?c2.0 = "snd (getPartialObject demo_env demo_object_server ?c1 ''b'' ''o'' 0 0)"]
      demo_get_whole
    by simp
  show ?thesis
    using v a b c demo_stat_client(2) by simp
qed


text \<open>
  The claim as stated names the part file \<open>{filePath}.{etag}.part\<close> and has a complete
  one skip the download. With a complete \<open>/tmp/f.e.part\<close> on disk the object is
  fetched all the same (a HEAD and a GET follow the region lookup), into
  \<open>/tmp/f.e.part.minio\<close>, and \<open>/tmp/f.e.part\<close> is left where it was.
\<close>

theorem fGetObject_part_name_counterexample:
  "request_paths (trace (fst (snd (fGetObject demo_env demo_object_server demo_client
       [''/tmp/f.e.part'' \<mapsto> ''abc''] ''b'' ''o'' ''/tmp/f'')))) =
     [''/b?location'', ''/b/o'', ''/b/o''] \<and>
   map (snd (snd (fGetObject demo_env demo_object_server demo_client
       [''/tmp/f.e.part'' \<mapsto> ''abc''] ''b'' ''o'' ''/tmp/f'')))
     [''/tmp/f.e.part'', ''/tmp/f.e.part.minio'', ''/tmp/f''] =
     [Some ''abc'', None, Some ''abc'']"
proof -
  let ?st = "\<lparr>stat_size = Some 3, stat_etag = ''e'', stat_contentType = None,
            stat_lastModified = None\<rparr>"
  let ?c1 = "snd (statObject demo_env demo_object_server demo_client ''b'' ''o'')"
  let ?c2 = "snd (getPartialObject demo_env demo_object_server ?c1 ''b'' ''o'' 0 0)"
  let ?files = "[''/tmp/f.e.part'' \<mapsto> ''abc'']"
  have v: "isValidBucketName demo_env (Some ''b'')" "isValidObjectName demo_env ''o''"
    "path_dirname demo_env ''/tmp/f'' \<noteq> ''.''" "mkdirp demo_env (path_dirname demo_env ''/tmp/f'') = None"
    by (simp_all add: demo_env_def truthy_opt_def)
  have part: "fGetObject_part demo_env demo_object_server ?c1 ?files ''b'' ''o'' ''/tmp/f'' ?st True =
      (Rename None, ''/tmp/f.e.part.minio'', ?c2, ?files(''/tmp/f.e.part.minio'' \<mapsto> ''abc''))"
    using fGetObject_part_fresh [OF v(1,2), where files = ?files and filePath = "''/tmp/f''"
        and st = ?st, OF _ demo_get_whole]
    by simp
  have "fGetObject demo_env demo_object_server demo_client ?files ''b'' ''o'' ''/tmp/f'' =
      (CbOk (), ?c2, (?files(''/tmp/f.e.part.minio'' := None))(''/tmp/f'' \<mapsto> ''abc''))"
    by (simp add: fGetObject_after_stat [OF v(1,2) demo_stat v(3,4)] part fs_rename_def)
  then show ?thesis
    by (simp add: demo_get_whole_paths)
qed

subsection \<open>getPartialObject\<close>

text \<open>
  C7. With valid names, \<open>getPartialObject(bucket, object, offset, length)\<close> sends the
  header \<open>range: bytes={offset}-{offset+length-1}\<close> when offset and length are both
  positive, the open-ended \<open>range: bytes={offset}-\<close> when the length is 0 and the
  offset positive, and no range header when both are 0; in every case the expected
  status is 206 when a range header is sent and 200 otherwise. For offset 10 and
  length 20 the range is \<open>bytes=10-29\<close>.
\<close>

theorem getPartialObject_range_status:
  assumes "isValidBucketName env (Some b)" and "isValidObjectName env ob"
  shows "(0 < offset \<and> 0 < len \<longrightarrow>
            getPartialObject env srv c b ob offset len =
              makeRequest env srv c
                \<lparr>req_method = ''GET'', bucketName = Some b, objectName = Some ob, query = None,
                 headers = Some [(''range'', ''bytes='' @ show_int offset @ ''-'' @
                                             show_int (offset + len - 1))]\<rparr> [] 206) \<and>
         (0 < offset \<and> len = 0 \<longrightarrow>
            getPartialObject env srv c b ob offset len =
              makeRequest env srv c
                \<lparr>req_method = ''GET'', bucketName = Some b, objectName = Some ob, query = None,
                 headers = Some [(''range'', ''bytes='' @ show_int offset @ ''-'')]\<rparr> [] 206) \<and>
         (offset = 0 \<and> len = 0 \<longrightarrow>
            getPartialObject env srv c b ob offset len =
              makeRequest env srv c
                \<lparr>req_method = ''GET'', bucketName = Some b, objectName = Some ob, query = None,
                 headers = Some []\<rparr> [] 200) \<and>
         (\<exists>hs expected.
            getPartialObject env srv c b ob offset len =
              makeRequest env srv c
                \<lparr>req_method = ''GET'', bucketName = Some b, objectName = Some ob, query = None,
                 headers = Some hs\<rparr> [] expected \<and>
            (expected = 206 \<and> (\<exists>r. r \<noteq> [] \<and> hs = [(''range'', r)]) \<or>
             expected = 200 \<and> hs = [])) \<and>
         getPartialObject_range 10 20 = ''bytes=10-29''"
proof -
  have "getPartialObject_range 10 20 = ''bytes=10-29''"
    by (simp add: getPartialObject_range_def show_defs)
  then show ?thesis
    using assms
    by (auto simp add: getPartialObject_def getPartialObject_range_def Let_def add.commute)
qed

theorem getPartialObject_range_status_witness:
  "isValidBucketName demo_env (Some ''b'') \<and> isValidObjectName demo_env ''o'' \<and>
   getPartialObject demo_env (demo_bucket_server 206 [] ''x'') demo_client ''b'' ''o'' 5 0 =
     makeRequest demo_env (demo_bucket_server 206 [] ''x'') demo_client
       \<lparr>req_method = ''GET'', bucketName = Some ''b'', objectName = Some ''o'', query = None,
        headers = Some [(''range'', ''bytes=5-'')]\<rparr> [] 206 \<and>
   getPartialObject demo_env (demo_bucket_server 200 [] ''x'') demo_client ''b'' ''o'' 0 0 =
     makeRequest demo_env (demo_bucket_server 200 [] ''x'') demo_client
       \<lparr>req_method = ''GET'', bucketName = Some ''b'', objectName = Some ''o'', query = None,
        headers = Some []\<rparr> [] 200 \<and>
   getPartialObject demo_env (demo_bucket_server 206 [] ''x'') demo_client ''b'' ''o'' 10 20 =
     makeRequest demo_env (demo_bucket_server 206 [] ''x'') demo_client
       \<lparr>req_method = ''GET'', bucketName = Some ''b'', objectName = Some ''o'', query = None,
        headers = Some [(''range'', ''bytes=10-29'')]\<rparr> [] 206 \<and>
   last (butlast (trace (snd (getPartialObject demo_env (demo_bucket_server 206 [] ''x'')
                                demo_client ''b'' ''o'' 10 20)))) =
     Request
       \<lparr>ro_method = ''GET'', ro_host = ''localhost'', ro_port = Some 9000,
        ro_protocol = ''http:'', ro_path = ''/b/o'',
        ro_headers =
          [(''host'', ''localhost:9000''), (''range'', ''bytes=10-29''),
           (''content-length'', ''0''),
           (''x-amz-date'', ''20160101T000000Z''),
           (''x-amz-content-sha256'', replicate 64 (CHR ''0'')),
           (''authorization'', ''AWS4-HMAC-SHA256 AK/us-east-1'')]\<rparr>
       []"
proof -
  have v: "isValidBucketName demo_env (Some ''b'')" "isValidObjectName demo_env ''o''"
    by (simp_all add: demo_env_def truthy_opt_def)
  have s: "show_int 10 = ''10''" "show_int 29 = ''29''" "show_int 5 = ''5''"
    by (simp_all add: show_defs)
  have t: "last (butlast (trace (snd (makeRequest demo_env (demo_bucket_server 206 [] ''x'') demo_client
       \<lparr>req_method = ''GET'', bucketName = Some ''b'', objectName = Some ''o'', query = None,
        headers = Some [(''range'', ''bytes=10-29'')]\<rparr> [] 206)))) =
     Request
       \<lparr>ro_method = ''GET'', ro_host = ''localhost'', ro_port = Some 9000,
        ro_protocol = ''http:'', ro_path = ''/b/o'',
        ro_headers =
          [(''host'', ''localhost:9000''), (''range'', ''bytes=10-29''),
           (''content-length'', ''0''),
           (''x-amz-date'', ''20160101T000000Z''),
           (''x-amz-content-sha256'', replicate 64 (CHR ''0'')),
           (''authorization'', ''AWS4-HMAC-SHA256 AK/us-east-1'')]\<rparr>
       []"
    by (simp add: request_defs demo_defs show_defs)
  show ?thesis
    using getPartialObject_range_status [OF v, of 10 20 "demo_bucket_server 206 [] ''x''" demo_client]
      getPartialObject_range_status [OF v, of 5 0 "demo_bucket_server 206 [] ''x''" demo_client]
      getPartialObject_range_status [OF v, of 0 0 "demo_bucket_server 200 [] ''x''" demo_client]
      v s t
    by simp
qed

subsection \<open>getBucketACL\<close>

lemma acl_step_flags:
  "publicRead (acl_step p g) =
     (publicRead p \<or> grantee_uri g = ''http://acs.amazonaws.com/groups/global/AllUsers'' \<and>
        permission g = ''READ'')"
  "publicWrite (acl_step p g) =
     (publicWrite p \<or> grantee_uri g = ''http://acs.amazonaws.com/groups/global/AllUsers'' \<and>
        permission g = ''WRITE'')"
  "authenticatedRead (acl_step p g) =
     (authenticatedRead p \<or>
        grantee_uri g = ''http://acs.amazonaws.com/groups/global/AuthenticatedUsers'' \<and>
        permission g = ''READ'')"
  "authenticatedWrite (acl_step p g) =
     (authenticatedWrite p \<or>
        grantee_uri g = ''http://acs.amazonaws.com/groups/global/AuthenticatedUsers'' \<and>
        permission g = ''WRITE'')"
  by (auto simp add: acl_step_def)

lemma foldl_acl_step_flags:
  "publicRead (foldl acl_step p acl) =
     (publicRead p \<or> has_grant acl ''http://acs.amazonaws.com/groups/global/AllUsers'' ''READ'')"
  "publicWrite (foldl acl_step p acl) =
     (publicWrite p \<or> has_grant acl ''http://acs.amazonaws.com/groups/global/AllUsers'' ''WRITE'')"
  "authenticatedRead (foldl acl_step p acl) =
     (authenticatedRead p \<or>
      has_grant acl ''http://acs.amazonaws.com/groups/global/AuthenticatedUsers'' ''READ'')"
  "authenticatedWrite (foldl acl_step p acl) =
     (authenticatedWrite p \<or>
      has_grant acl ''http://acs.amazonaws.com/groups/global/AuthenticatedUsers'' ''WRITE'')"
  by (induction acl arbitrary: p; simp add: has_grant_def acl_step_flags; blast)+

lemma cannedACL_of_table:
  "cannedACL_of p = acl_table (publicRead p) (publicWrite p) (authenticatedRead p) (authenticatedWrite p)"
  by (simp add: cannedACL_of_def acl_table_def)

text \<open>
  C8. \<open>getBucketACL\<close> reduces the grant list the server returned to the four flags
  (a flag is set exactly when the list holds a grant of that group and permission) and
  maps them to the canned ACL of the table: (T,T,F,F) to \<open>public-read-write\<close>,
  (T,F,F,F) to \<open>public-read\<close>, (F,F,T,F) to \<open>authenticated-read\<close>, (F,F,F,F) to
  \<open>private\<close>, and every other combination to \<open>unsupported-acl\<close>.
\<close>

theorem getBucketACL_reduction_table:
  "cannedACL_of (foldl acl_step perm_empty acl) =
     acl_table
       (has_grant acl ''http://acs.amazonaws.com/groups/global/AllUsers'' ''READ'')
       (has_grant acl ''http://acs.amazonaws.com/groups/global/AllUsers'' ''WRITE'')
       (has_grant acl ''http://acs.amazonaws.com/groups/global/AuthenticatedUsers'' ''READ'')
       (has_grant acl ''http://acs.amazonaws.com/groups/global/AuthenticatedUsers'' ''WRITE'') \<and>
   (isValidBucketName env (Some b) \<and>
    makeRequest env srv c
      \<lparr>req_method = ''GET'', bucketName = Some b, objectName = None, query = Some ''acl'',
       headers = None\<rparr> [] 200 = (CbOk resp, c1) \<and>
    getAclTransformer env resp = Inr acl \<longrightarrow>
    getBucketACL env srv c b =
      (CbOk (acl_table
         (has_grant acl ''http://acs.amazonaws.com/groups/global/AllUsers'' ''READ'')
         (has_grant acl ''http://acs.amazonaws.com/groups/global/AllUsers'' ''WRITE'')
         (has_grant acl ''http://acs.amazonaws.com/groups/global/AuthenticatedUsers'' ''READ'')
         (has_grant acl ''http://acs.amazonaws.com/groups/global/AuthenticatedUsers'' ''WRITE'')),
       c1)) \<and>
   acl_table True True False False = ''public-read-write'' \<and>
   acl_table True False False False = ''public-read'' \<and>
   acl_table False False True False = ''authenticated-read'' \<and>
   acl_table False False False False = ''private'' \<and>
   ((pr, pw, ar, aw) \<notin> {(True, True, False, False), (True, False, False, False),
                         (False, False, True, False), (False, False, False, False)} \<longrightarrow>
    acl_table pr pw ar aw = ''unsupported-acl'')"
proof -
  have red: "cannedACL_of (foldl acl_step perm_empty acl) =
     acl_table
       (has_grant acl ''http://acs.amazonaws.com/groups/global/AllUsers'' ''READ'')
       (has_grant acl ''http://acs.amazonaws.com/groups/global/AllUsers'' ''WRITE'')
       (has_grant acl ''http://acs.amazonaws.com/groups/global/AuthenticatedUsers'' ''READ'')
       (has_grant acl ''http://acs.amazonaws.com/groups/global/AuthenticatedUsers'' ''WRITE'')"
    by (simp add: cannedACL_of_table foldl_acl_step_flags perm_empty_def)
  have rows: "acl_table True True False False = ''public-read-write''"
    "acl_table True False False False = ''public-read''"
    "acl_table False False True False = ''authenticated-read''"
    "acl_table False False False False = ''private''"
    by (simp_all add: acl_table_def)
  have other: "(pr, pw, ar, aw) \<notin> {(True, True, False, False), (True, False, False, False),
                         (False, False, True, False), (False, False, False, False)} \<longrightarrow>
    acl_table pr pw ar aw = ''unsupported-acl''"
    by (simp add: acl_table_def)
  show ?thesis
    using red rows other by (simp add: getBucketACL_def)
qed

theorem getBucketACL_reduction_table_witness:
  "isValidBucketName demo_env (Some ''b'') \<and>
   fst (getBucketACL (demo_env\<lparr>getAclTransformer := (\<lambda>r. Inr demo_acl)\<rparr>)
          (demo_bucket_server 200 [] ''x'') demo_client ''b'') = CbOk ''public-read'' \<and>
   (True, True, True, False) \<notin> {(True, True, False, False), (True, False, False, False),
                         (False, False, True, False), (False, False, False, False)} \<and>
   acl_table True True True False = ''unsupported-acl''"
proof -
  let ?env = "demo_env\<lparr>getAclTransformer := (\<lambda>r. Inr demo_acl)\<rparr>"
  let ?srv = "demo_bucket_server 200 [] ''x''"
  let ?r = "makeRequest ?env ?srv demo_client
      \<lparr>req_method = ''GET'', bucketName = Some ''b'', objectName = None, query = Some ''acl'',
       headers = None\<rparr> [] 200"
  have v: "isValidBucketName ?env (Some ''b'')" "isValidBucketName demo_env (Some ''b'')"
    by (simp_all add: demo_env_def truthy_opt_def)
  have r: "?r = (CbOk \<lparr>statusCode = 200, resp_headers = [], body = ''x'', bodyError = None\<rparr>, snd ?r)"
    by (simp add: request_defs demo_defs show_defs)
  have t: "getAclTransformer ?env \<lparr>statusCode = 200, resp_headers = [], body = ''x'', bodyError = None\<rparr> = Inr demo_acl"
    by simp
  have g: "has_grant demo_acl ''http://acs.amazonaws.com/groups/global/AllUsers'' ''READ''"
     "\<not> has_grant demo_acl ''http://acs.amazonaws.com/groups/global/AllUsers'' ''WRITE''"
     "\<not> has_grant demo_acl ''http://acs.amazonaws.com/groups/global/AuthenticatedUsers'' ''READ''"
     "\<not> has_grant demo_acl ''http://acs.amazonaws.com/groups/global/AuthenticatedUsers'' ''WRITE''"
    by (simp_all add: has_grant_def demo_acl_def)
  show ?thesis
    using getBucketACL_reduction_table [of demo_acl ?env "''b''" ?srv demo_client
        "\<lparr>statusCode = 200, resp_headers = [], body = ''x'', bodyError = None\<rparr>" "snd ?r" True True True False]
      v r t g
    by simp
qed

subsection \<open>POST policy\<close>

lemma apply_call_bucket:
  assumes "\<not> is_SetBucket call" and "apply_call env p call = Inr p1"
  shows "map_of (formData p1) ''bucket'' = map_of (formData p) ''bucket''"
  using assms
  by (cases call)
     (auto simp add: setExpires_def setKey_def setKeyStartsWith_def setContentType_def
        setContentLength_def update_conv' split: option.splits if_splits)

lemma build_policy_bucket:
  assumes "\<not> list_ex is_SetBucket calls"
  shows "map_of (formData (build_policy env p calls)) ''bucket'' = map_of (formData p) ''bucket''"
  using assms
proof (induction calls arbitrary: p)
  case Nil
  show ?case by simp
next
  case (Cons call calls)
  then have nb: "\<not> is_SetBucket call" and rest: "\<not> list_ex is_SetBucket calls"
    by simp_all
  show ?case
  proof (cases "apply_call env p call")
    case (Inl e)
    then show ?thesis using Cons.IH [OF rest] by simp
  next
    case (Inr p1)
    then show ?thesis
      using Cons.IH [OF rest, of p1] apply_call_bucket [OF nb Inr] by simp
  qed
qed

lemma presignedPostPolicy_ignores_expiration:
  "(\<exists>fd. fst (presignedPostPolicy env srv c (p\<lparr>expiration := x\<rparr>)) = CbOk fd) \<longleftrightarrow>
   (\<exists>fd. fst (presignedPostPolicy env srv c p) = CbOk fd)"
  by (auto simp add: presignedPostPolicy_def Let_def split: prod.splits outcome.splits)

lemma presignedPostPolicy_without_bucket:
  assumes "\<not> isValidBucketName env None" and "map_of (formData p) ''bucket'' = None"
  shows "presignedPostPolicy env srv c p =
     (Thrown (if anonymous c then AnonymousRequestError else InvalidBucketNameError), c)"
  using assms by (simp add: presignedPostPolicy_def getBucketRegion_def)

lemma presignedPostPolicy_signed:
  assumes "presignedPostPolicy env srv c p = (CbOk fd, c1)"
  shows "\<not> anonymous c \<and> isValidBucketName env (map_of (formData p) ''bucket'') \<and>
         (\<exists>region. fst (getBucketRegion env srv c (map_of (formData p) ''bucket'')) = CbOk region \<and>
            map_of fd ''x-amz-signature'' =
              Some (postPresignSignatureV4 env region (utcNow env) (secretKey c) (the (map_of fd ''policy''))))"
proof -
  have na: "\<not> anonymous c"
    using assms by (auto simp add: presignedPostPolicy_def)
  obtain r c2 where g: "getBucketRegion env srv c (map_of (formData p) ''bucket'') = (r, c2)"
    by (cases "getBucketRegion env srv c (map_of (formData p) ''bucket'')")
  have v: "isValidBucketName env (map_of (formData p) ''bucket'')"
  proof (rule ccontr)
    assume "\<not> isValidBucketName env (map_of (formData p) ''bucket'')"
    then have "getBucketRegion env srv c (map_of (formData p) ''bucket'') = (Thrown InvalidBucketNameError, c)"
      by (simp add: getBucketRegion_def)
    then show False
      using assms na by (simp add: presignedPostPolicy_def)
  qed
  obtain region where r: "r = CbOk region"
    using assms na g by (cases r) (simp_all add: presignedPostPolicy_def)
  have "map_of fd ''x-amz-signature'' =
      Some (postPresignSignatureV4 env region (utcNow env) (secretKey c) (the (map_of fd ''policy'')))"
    using assms na g r
    by (auto simp add: presignedPostPolicy_def Let_def update_conv')
  then show ?thesis
    using na v g r by auto
qed

text \<open>
  C9 (as amended). Provided the bucket name validator rejects an undefined name, a policy
  built by setter calls none of which is \<open>setBucket\<close> is never signed:
  \<open>presignedPostPolicy\<close> throws before any request (the anonymous-request error for an
  anonymous client, the invalid-bucket-name error otherwise) and leaves the client as it
  was. Whenever \<open>presignedPostPolicy\<close> does return a form data map, the policy has a
  valid bucket and the map carries \<open>x-amz-signature\<close>. The expiration is not checked:
  whether a policy is signed does not depend on its expiration.
\<close>

theorem presignedPostPolicy_requires_bucket:
  assumes "\<not> isValidBucketName env None"
  shows "(\<not> list_ex is_SetBucket calls \<longrightarrow>
            presignedPostPolicy env srv c (build_policy env newPostPolicy calls) =
              (Thrown (if anonymous c then AnonymousRequestError else InvalidBucketNameError), c)) \<and>
         (presignedPostPolicy env srv c p = (CbOk fd, c1) \<longrightarrow>
            map_of (formData p) ''bucket'' \<noteq> None \<and>
            isValidBucketName env (map_of (formData p) ''bucket'') \<and>
            map_of fd ''x-amz-signature'' \<noteq> None) \<and>
         ((\<exists>fd. fst (presignedPostPolicy env srv c (p\<lparr>expiration := x\<rparr>)) = CbOk fd) \<longleftrightarrow>
          (\<exists>fd. fst (presignedPostPolicy env srv c p) = CbOk fd))"
proof (intro conjI impI)
  show "(\<exists>fd. fst (presignedPostPolicy env srv c (p\<lparr>expiration := x\<rparr>)) = CbOk fd) \<longleftrightarrow>
          (\<exists>fd. fst (presignedPostPolicy env srv c p) = CbOk fd)"
    by (rule presignedPostPolicy_ignores_expiration)
next
  assume "\<not> list_ex is_SetBucket calls"
  then have "map_of (formData (build_policy env newPostPolicy calls)) ''bucket'' = None"
    by (simp add: build_policy_bucket newPostPolicy_def)
  with assms show "presignedPostPolicy env srv c (build_policy env newPostPolicy calls) =
      (Thrown (if anonymous c then AnonymousRequestError else InvalidBucketNameError), c)"
    by (rule presignedPostPolicy_without_bucket)
next
  assume s: "presignedPostPolicy env srv c p = (CbOk fd, c1)"
  from presignedPostPolicy_signed [OF s]
  show "isValidBucketName env (map_of (formData p) ''bucket'')"
    and "map_of fd ''x-amz-signature'' \<noteq> None"
    by auto
  then show "map_of (formData p) ''bucket'' \<noteq> None"
    using assms by (cases "map_of (formData p) ''bucket''") simp_all
qed

theorem presignedPostPolicy_requires_bucket_witness:
  "\<not> isValidBucketName demo_env None \<and>
   \<not> list_ex is_SetBucket [SetExpires (Some 0), SetKey ''k''] \<and>
   presignedPostPolicy demo_env (demo_bucket_server 200 [] []) demo_client
       (build_policy demo_env newPostPolicy [SetExpires (Some 0), SetKey ''k'']) =
     (Thrown InvalidBucketNameError, demo_client) \<and>
   fst (presignedPostPolicy demo_env (demo_bucket_server 200 [] []) demo_client
          (build_policy demo_env newPostPolicy [SetExpires (Some 0), SetBucket ''b''])) =
     CbOk [(''bucket'', ''b''), (''x-amz-date'', ''20160101T000000Z''),
           (''x-amz-algorithm'', ''AWS4-HMAC-SHA256''),
           (''x-amz-credential'', ''AK/20160101T000000/us-east-1/s3/aws4_request''),
           (''policy'', ''e30=''), (''x-amz-signature'', replicate 64 (CHR ''f''))] \<and>
   map_of (formData (build_policy demo_env newPostPolicy [SetExpires (Some 0), SetBucket ''b'']))
     ''bucket'' = Some ''b''"
proof -
  let ?p = "build_policy demo_env newPostPolicy [SetExpires (Some 0), SetBucket ''b'']"
  let ?run = "presignedPostPolicy demo_env (demo_bucket_server 200 [] []) demo_client ?p"
  let ?fd = "[(''bucket'', ''b''), (''x-amz-date'', ''20160101T000000Z''),
           (''x-amz-algorithm'', ''AWS4-HMAC-SHA256''),
           (''x-amz-credential'', ''AK/20160101T000000/us-east-1/s3/aws4_request''),
           (''policy'', ''e30=''), (''x-amz-signature'', replicate 64 (CHR ''f''))]"
  have v: "\<not> isValidBucketName demo_env None"
    by (simp add: demo_env_def truthy_opt_def)
  have n: "\<not> list_ex is_SetBucket [SetExpires (Some 0), SetKey ''k'']" "\<not> anonymous demo_client"
    by (simp_all add: demo_client_def)
  have p: "?p = \<lparr>expiration = Some ''2016-01-01T00:00:00.000Z'',
                 conditions = [Cond ''eq'' ''$bucket'' ''b''], formData = [(''bucket'', ''b'')]\<rparr>"
    by (simp add: newPostPolicy_def setExpires_def setBucket_def demo_env_def truthy_opt_def)
  have run: "fst ?run = CbOk ?fd"
    unfolding p
    by (simp add: presignedPostPolicy_def getBucketRegion_def getBucketRegion_request_def
        demo_env_fields demo_env_post_fields demo_client_def demo_bucket_server_def log_def
        truthy_opt_def cached_region_def object_prototype_keys_def template_def Let_def show_defs)
  then have run2: "?run = (CbOk ?fd, snd ?run)"
    by (simp add: prod_eq_iff)
  have a: "presignedPostPolicy demo_env (demo_bucket_server 200 [] []) demo_client
       (build_policy demo_env newPostPolicy [SetExpires (Some 0), SetKey ''k'']) =
     (Thrown InvalidBucketNameError, demo_client)"
    using presignedPostPolicy_requires_bucket [OF v, where calls = "[SetExpires (Some 0), SetKey ''k'']"
        and srv = "demo_bucket_server 200 [] []" and c = demo_client and p = ?p and fd = ?fd
        and ?c1.0 = "snd ?run"] n
    by simp
  have b: "map_of (formData ?p) ''bucket'' \<noteq> None"
    using presignedPostPolicy_requires_bucket [OF v, where calls = "[SetExpires (Some 0), SetKey ''k'']"
        and srv = "demo_bucket_server 200 [] []" and c = demo_client and p = ?p and fd = ?fd
        and ?c1.0 = "snd ?run"] run2
    by blast
  have c: "map_of (formData ?p) ''bucket'' = Some ''b''"
    unfolding p by simp
  from v n(1) a b run c show ?thesis
    by blast
qed

text \<open>
  The claim as stated has \<open>presignedPostPolicy\<close> fail for a policy on which
  \<open>setExpires\<close> was never called; such a policy with a bucket is signed.
\<close>

theorem presignedPostPolicy_no_expiration_counterexample:
  "\<not> list_ex is_SetExpires [SetBucket ''b''] \<and>
   expiration (build_policy demo_env newPostPolicy [SetBucket ''b'']) = None \<and>
   fst (presignedPostPolicy demo_env (demo_bucket_server 200 [] []) demo_client
          (build_policy demo_env newPostPolicy [SetBucket ''b''])) =
     CbOk [(''bucket'', ''b''), (''x-amz-date'', ''20160101T000000Z''),
           (''x-amz-algorithm'', ''AWS4-HMAC-SHA256''),
           (''x-amz-credential'', ''AK/20160101T000000/us-east-1/s3/aws4_request''),
           (''policy'', ''e30=''), (''x-amz-signature'', replicate 64 (CHR ''f''))]"
proof -
  have p: "build_policy demo_env newPostPolicy [SetBucket ''b''] =
      \<lparr>expiration = None, conditions = [Cond ''eq'' ''$bucket'' ''b''],
       formData = [(''bucket'', ''b'')]\<rparr>"
    by (simp add: newPostPolicy_def setBucket_def demo_env_def truthy_opt_def)
  show ?thesis
    unfolding p
    by (simp add: presignedPostPolicy_def getBucketRegion_def getBucketRegion_request_def
        demo_env_fields demo_env_post_fields demo_client_def demo_bucket_server_def log_def
        truthy_opt_def cached_region_def object_prototype_keys_def template_def Let_def show_defs)
qed
subsection \<open>Listing objects\<close>

lemma listObjectsQuery_events:
  "\<exists>evs. trace (snd (listObjectsQuery env srv c b pfx marker delim k)) = trace c @ evs \<and>
         set (request_paths evs) \<subseteq>
           {''/'' @ b @ ''?location'',
            ro_path (getRequestOptions env c (listObjectsQuery_spec env b pfx marker delim k))} \<and>
         same_config c (snd (listObjectsQuery env srv c b pfx marker delim k))"
proof (cases "isValidBucketName env (Some b)")
  case False
  then show ?thesis
    by (simp add: listObjectsQuery_def)
next
  case True
  let ?spec = "listObjectsQuery_spec env b pfx marker delim k"
  have bn: "bucketName ?spec = Some b"
    by (simp add: listObjectsQuery_spec_def Let_def)
  obtain r c1 where m: "makeRequest env srv c ?spec [] 200 = (r, c1)"
    by (cases "makeRequest env srv c ?spec [] 200")
  have c1: "snd (listObjectsQuery env srv c b pfx marker delim k) = c1"
    using True m by (simp add: listObjectsQuery_def split: outcome.splits sum.splits)
  show ?thesis
    using makeRequest_events [OF bn, of env srv c "[]" 200] m
    unfolding c1 by simp
qed

lemma listNext_events:
  "\<exists>evs. trace (snd (listNext n env srv c b pfx delim pushed marker)) = trace c @ evs \<and>
         (\<forall>p \<in> set (request_paths evs).
            p = ''/'' @ b @ ''?location'' \<or>
            (\<exists>m. p = ro_path (getRequestOptions env c (listObjectsQuery_spec env b pfx m delim 1000)))) \<and>
         same_config c (snd (listNext n env srv c b pfx delim pushed marker))"
proof (induction n arbitrary: c pushed marker)
  case 0
  show ?case by simp
next
  case (Suc n)
  obtain r c1 where q: "listObjectsQuery env srv c b pfx marker delim 1000 = (r, c1)"
    by (cases "listObjectsQuery env srv c b pfx marker delim 1000")
  from listObjectsQuery_events [of env srv c b pfx marker delim 1000] q
  obtain evs1 where e1: "trace c1 = trace c @ evs1"
    "set (request_paths evs1) \<subseteq>
       {''/'' @ b @ ''?location'',
        ro_path (getRequestOptions env c (listObjectsQuery_spec env b pfx marker delim 1000))}"
    "same_config c c1"
    by auto
  have here: "\<forall>p \<in> set (request_paths evs1).
            p = ''/'' @ b @ ''?location'' \<or>
            (\<exists>m. p = ro_path (getRequestOptions env c (listObjectsQuery_spec env b pfx m delim 1000)))"
    using e1(2) by auto
  show ?case
  proof (cases r)
    case (Thrown e)
    then show ?thesis using q e1 here by simp
  next
    case (CbError e)
    then show ?thesis using q e1 here by simp
  next
    case (CbOk page)
    show ?thesis
    proof (cases "isTruncated page")
      case False
      then show ?thesis using q CbOk e1 here by simp
    next
      case True
      from Suc.IH [of c1 "pushed @ objects page" "nextMarker page"]
      obtain evs2 where e2:
        "trace (snd (listNext n env srv c1 b pfx delim (pushed @ objects page) (nextMarker page))) =
           trace c1 @ evs2"
        "\<forall>p \<in> set (request_paths evs2).
            p = ''/'' @ b @ ''?location'' \<or>
            (\<exists>m. p = ro_path (getRequestOptions env c1 (listObjectsQuery_spec env b pfx m delim 1000)))"
        "same_config c1 (snd (listNext n env srv c1 b pfx delim (pushed @ objects page) (nextMarker page)))"
        by auto
      have e2': "\<forall>p \<in> set (request_paths evs2).
            p = ''/'' @ b @ ''?location'' \<or>
            (\<exists>m. p = ro_path (getRequestOptions env c (listObjectsQuery_spec env b pfx m delim 1000)))"
        using e2(2) by (simp add: getRequestOptions_same_config [OF e1(3)])
      have "trace (snd (listNext (Suc n) env srv c b pfx delim pushed marker)) = trace c @ (evs1 @ evs2)"
        using q CbOk True e1(1) e2(1) by simp
      moreover have "\<forall>p \<in> set (request_paths (evs1 @ evs2)).
            p = ''/'' @ b @ ''?location'' \<or>
            (\<exists>m. p = ro_path (getRequestOptions env c (listObjectsQuery_spec env b pfx m delim 1000)))"
        using here e2' by (auto simp add: request_paths_append)
      moreover have "same_config c (snd (listNext (Suc n) env srv c b pfx delim pushed marker))"
        using q CbOk True same_config_trans [OF e1(3) e2(3)] by simp
      ultimately show ?thesis by blast
    qed
  qed
qed

lemma join_nonempty: "x \<in> set xs \<Longrightarrow> x \<noteq> [] \<Longrightarrow> join sep xs \<noteq> []"
  by (induction sep xs rule: join.induct) auto

lemma max_keys_filter:
  "filter (prefix ''max-keys='') (listObjectsQuery_queries env pfx marker delimiter maxKeys) =
     (if maxKeys = 0 then [] else [''max-keys='' @ show_int (min maxKeys 1000)])"
  by (simp add: listObjectsQuery_queries_def filter_sort min_def)


lemma listObjects_path:
  assumes "b \<noteq> []"
  shows "ro_path (getRequestOptions env c (listObjectsQuery_spec env b pfx marker delimiter 1000)) =
     (if virtualHostStyle c then ''/'' else ''/'' @ b) @ ''?'' @
     join ''&'' (listObjectsQuery_queries env pfx marker delimiter 1000)"
proof -
  have s: "show_int 1000 = ''1000''"
    by (simp add: show_defs)
  have "''max-keys=1000'' \<in> set (listObjectsQuery_queries env pfx marker delimiter 1000)"
    by (simp add: listObjectsQuery_queries_def s)
  then have ne: "join ''&'' (listObjectsQuery_queries env pfx marker delimiter 1000) \<noteq> []"
    by (rule join_nonempty) simp
  then have ne2: "listObjectsQuery_queries env pfx marker delimiter 1000 \<noteq> []"
    by auto
  show ?thesis
    using assms ne ne2
    by (simp add: getRequestOptions_def listObjectsQuery_spec_def Let_def truthy_opt_def template_def)
qed

text \<open>
  C10. The query components of \<open>listObjectsQuery\<close> that begin with \<open>max-keys=\<close> are
  none when \<open>maxKeys\<close> is 0, and otherwise the single component
  \<open>max-keys={min(maxKeys, 1000)}\<close>; the query string is these components joined by
  \<open>&\<close>. Every request \<open>listObjectsQuery\<close> opens is the region lookup or the GET
  whose path carries that query string, and every request \<open>listObjects\<close> opens, over
  any number of pages, is the region lookup or the GET that \<open>listObjectsQuery\<close>
  builds for \<open>maxKeys = 1000\<close> and some marker. So no request asks for more than
  1000 keys.
\<close>

theorem listObjects_max_keys:
  "filter (prefix ''max-keys='') (listObjectsQuery_queries env pfx marker delimiter maxKeys) =
     (if maxKeys = 0 then [] else [''max-keys='' @ show_int (min maxKeys 1000)]) \<and>
   query (listObjectsQuery_spec env b pfx marker delimiter maxKeys) =
     Some (join ''&'' (listObjectsQuery_queries env pfx marker delimiter maxKeys)) \<and>
   (\<forall>p \<in> set (request_paths (new_events c
                 (snd (listObjectsQuery env srv c b pfx marker delimiter maxKeys)))).
      p = ''/'' @ b @ ''?location'' \<or>
      p = ro_path (getRequestOptions env c
                     (listObjectsQuery_spec env b pfx marker delimiter maxKeys))) \<and>
   (\<forall>p \<in> set (request_paths (new_events c (snd (listObjects pages env srv c b pfx recursive)))).
      p = ''/'' @ b @ ''?location'' \<or>
      (\<exists>m. p = ro_path (getRequestOptions env c
                     (listObjectsQuery_spec env b pfx m (if recursive then [] else ''/'') 1000)))) \<and>
   (b \<noteq> [] \<longrightarrow>
      ro_path (getRequestOptions env c (listObjectsQuery_spec env b pfx marker delimiter 1000)) =
        (if virtualHostStyle c then ''/'' else ''/'' @ b) @ ''?'' @
        join ''&'' (listObjectsQuery_queries env pfx marker delimiter 1000))"
proof (intro conjI impI)
  show "filter (prefix ''max-keys='') (listObjectsQuery_queries env pfx marker delimiter maxKeys) =
     (if maxKeys = 0 then [] else [''max-keys='' @ show_int (min maxKeys 1000)])"
    by (rule max_keys_filter)
  show "query (listObjectsQuery_spec env b pfx marker delimiter maxKeys) =
     Some (join ''&'' (listObjectsQuery_queries env pfx marker delimiter maxKeys))"
    by (simp add: listObjectsQuery_spec_def Let_def)
  show "\<forall>p \<in> set (request_paths (new_events c
                 (snd (listObjectsQuery env srv c b pfx marker delimiter maxKeys)))).
      p = ''/'' @ b @ ''?location'' \<or>
      p = ro_path (getRequestOptions env c
                     (listObjectsQuery_spec env b pfx marker delimiter maxKeys))"
  proof -
    from listObjectsQuery_events [of env srv c b pfx marker delimiter maxKeys]
    obtain evs where e:
      "trace (snd (listObjectsQuery env srv c b pfx marker delimiter maxKeys)) = trace c @ evs"
      "set (request_paths evs) \<subseteq>
         {''/'' @ b @ ''?location'',
          ro_path (getRequestOptions env c (listObjectsQuery_spec env b pfx marker delimiter maxKeys))}"
      by blast
    have "new_events c (snd (listObjectsQuery env srv c b pfx marker delimiter maxKeys)) = evs"
      by (simp add: new_events_def e(1))
    then show ?thesis
      using e(2) by auto
  qed
  show "\<forall>p \<in> set (request_paths (new_events c (snd (listObjects pages env srv c b pfx recursive)))).
      p = ''/'' @ b @ ''?location'' \<or>
      (\<exists>m. p = ro_path (getRequestOptions env c
                     (listObjectsQuery_spec env b pfx m (if recursive then [] else ''/'') 1000)))"
  proof (cases "isValidBucketName env (Some b) \<and> \<not> (pfx \<noteq> [] \<and> \<not> isValidPrefix env pfx)")
    case False
    then show ?thesis
      by (auto simp add: listObjects_def new_events_def)
  next
    case True
    then have eq: "listObjects pages env srv c b pfx recursive =
        listNext pages env srv c b pfx (if recursive then [] else ''/'') [] []"
      by (auto simp add: listObjects_def Let_def)
    from listNext_events [of pages env srv c b pfx "if recursive then [] else ''/''" "[]" "[]"]
    obtain evs where e:
      "trace (snd (listNext pages env srv c b pfx (if recursive then [] else ''/'') [] [])) =
         trace c @ evs"
      "\<forall>p \<in> set (request_paths evs).
         p = ''/'' @ b @ ''?location'' \<or>
         (\<exists>m. p = ro_path (getRequestOptions env c
                        (listObjectsQuery_spec env b pfx m (if recursive then [] else ''/'') 1000)))"
      by blast
    have "new_events c (snd (listNext pages env srv c b pfx (if recursive then [] else ''/'') [] [])) = evs"
      by (simp only: new_events_def e(1) append_eq_conv_conj drop_append) simp
    then show ?thesis
      unfolding eq using e(2) by simp
  qed
next
  assume "b \<noteq> []"
  then show "ro_path (getRequestOptions env c (listObjectsQuery_spec env b pfx marker delimiter 1000)) =
        (if virtualHostStyle c then ''/'' else ''/'' @ b) @ ''?'' @
        join ''&'' (listObjectsQuery_queries env pfx marker delimiter 1000)"
    by (rule listObjects_path)
qed


lemma demo_queries:
  "listObjectsQuery_queries demo_env ''p'' [] ''/'' 5000 =
     [''delimiter=/'', ''max-keys=1000'', ''prefix=p'']"
  "listObjectsQuery_queries demo_listing_env ''p'' [] ''/'' 1000 =
     [''delimiter=/'', ''max-keys=1000'', ''prefix=p'']"
  "listObjectsQuery_queries demo_listing_env ''p'' ''m'' ''/'' 1000 =
     [''delimiter=/'', ''marker=m'', ''max-keys=1000'', ''prefix=p'']"
  by (simp_all add: listObjectsQuery_queries_def demo_listing_env_def demo_env_def show_defs)


lemma demo_listing_env_fields:
  "isValidBucketName demo_listing_env v = truthy_opt v"
  "isValidPrefix demo_listing_env s = True"
  "uriEscape demo_listing_env s = s"
  "uriResourceEscape demo_listing_env s = s"
  "signV4 demo_listing_env ro ak sk (RegionName rg) = ''AWS4-HMAC-SHA256 '' @ ak @ ''/'' @ rg"
  "sha256_hex demo_listing_env s = replicate 64 (CHR ''0'')"
  "utcNow demo_listing_env = ''20160101T000000''"
  "getErrorTransformer demo_listing_env r = S3Error (body r)"
  "getBucketRegionTransformer demo_listing_env r = Inr [body r]"
  "getListObjectsTransformer demo_listing_env r =
     Inr \<lparr>objects = [body r], isTruncated = (body r = ''first''), nextMarker = ''m''\<rparr>"
  by (simp_all add: demo_listing_env_def demo_env_def demo_region_text_def)


lemmas listing_eval = listObjectsQuery_def listObjectsQuery_spec_def demo_queries
  demo_listing_env_fields request_defs demo_listing_server_def show_defs

lemma demo_page1:
  "fst (listObjectsQuery demo_listing_env demo_listing_server demo_client ''b'' ''p'' [] ''/'' 1000) =
     CbOk \<lparr>objects = [''first''], isTruncated = True, nextMarker = ''m''\<rparr>"
  "regionMap (snd (listObjectsQuery demo_listing_env demo_listing_server demo_client
                     ''b'' ''p'' [] ''/'' 1000)) ''b'' = Some ''us-east-1''"
  "request_paths (trace (snd (listObjectsQuery demo_listing_env demo_listing_server demo_client
                     ''b'' ''p'' [] ''/'' 1000))) =
     [''/b?location'', ''/b?delimiter=/&max-keys=1000&prefix=p'']"
  by (simp_all add: listing_eval demo_client_def)


lemma demo_listing_c1_fields:
  "host demo_listing_c1 = ''localhost''" "port demo_listing_c1 = 9000"
  "protocol demo_listing_c1 = ''http:''" "accessKey demo_listing_c1 = ''AK''"
  "secretKey demo_listing_c1 = ''SK''" "anonymous demo_listing_c1 = False"
  "virtualHostStyle demo_listing_c1 = False"
  "regionMap demo_listing_c1 ''b'' = Some ''us-east-1''"
  "request_paths (trace demo_listing_c1) =
     [''/b?location'', ''/b?delimiter=/&max-keys=1000&prefix=p'']"
proof -
  have "same_config demo_client demo_listing_c1"
    unfolding demo_listing_c1_def
    using listObjectsQuery_events [of demo_listing_env demo_listing_server demo_client "''b''"
        "''p''" "[]" "''/''" 1000]
    by blast
  then show "host demo_listing_c1 = ''localhost''" "port demo_listing_c1 = 9000"
    "protocol demo_listing_c1 = ''http:''" "accessKey demo_listing_c1 = ''AK''"
    "secretKey demo_listing_c1 = ''SK''" "anonymous demo_listing_c1 = False"
    "virtualHostStyle demo_listing_c1 = False"
    by (simp_all add: same_config_def demo_client_def)
  show "regionMap demo_listing_c1 ''b'' = Some ''us-east-1''"
    "request_paths (trace demo_listing_c1) =
       [''/b?location'', ''/b?delimiter=/&max-keys=1000&prefix=p'']"
    unfolding demo_listing_c1_def by (rule demo_page1)+
qed

lemma demo_page2:
  "fst (listObjectsQuery demo_listing_env demo_listing_server demo_listing_c1 ''b'' ''p'' ''m'' ''/'' 1000) =
     CbOk \<lparr>objects = [''second''], isTruncated = False, nextMarker = ''m''\<rparr>"
  "request_paths (trace (snd (listObjectsQuery demo_listing_env demo_listing_server demo_listing_c1
                     ''b'' ''p'' ''m'' ''/'' 1000))) =
     [''/b?location'', ''/b?delimiter=/&max-keys=1000&prefix=p'',
      ''/b?delimiter=/&marker=m&max-keys=1000&prefix=p'']"
  by (simp_all add: listing_eval demo_listing_c1_fields request_paths_append)


lemma demo_listing_run:
  "request_paths (trace
     (snd (listObjects 3 demo_listing_env demo_listing_server demo_client ''b'' ''p'' False))) =
   [''/b?location'', ''/b?delimiter=/&max-keys=1000&prefix=p'',
    ''/b?delimiter=/&marker=m&max-keys=1000&prefix=p'']"
  "fst (listObjects 3 demo_listing_env demo_listing_server demo_client ''b'' ''p'' False) =
     ([''first'', ''second''], Ended)"
proof -
  let ?q1 = "listObjectsQuery demo_listing_env demo_listing_server demo_client ''b'' ''p'' [] ''/'' 1000"
  let ?q2 = "listObjectsQuery demo_listing_env demo_listing_server demo_listing_c1 ''b'' ''p'' ''m'' ''/'' 1000"
  have q1: "?q1 = (CbOk \<lparr>objects = [''first''], isTruncated = True, nextMarker = ''m''\<rparr>, demo_listing_c1)"
    using demo_page1(1) by (simp add: prod_eq_iff demo_listing_c1_def)
  obtain c2 where q2: "?q2 = (CbOk \<lparr>objects = [''second''], isTruncated = False, nextMarker = ''m''\<rparr>, c2)"
    and p2: "request_paths (trace c2) =
       [''/b?location'', ''/b?delimiter=/&max-keys=1000&prefix=p'',
        ''/b?delimiter=/&marker=m&max-keys=1000&prefix=p'']"
    using demo_page2 by (cases ?q2) simp
  have three: "(3::nat) = Suc (Suc (Suc 0))"
    by simp
  have run: "listObjects 3 demo_listing_env demo_listing_server demo_client ''b'' ''p'' False =
      (([''first'', ''second''], Ended), c2)"
    unfolding three
    by (simp add: listObjects_def demo_listing_env_fields truthy_opt_def q1 q2)
  show "request_paths (trace
     (snd (listObjects 3 demo_listing_env demo_listing_server demo_client ''b'' ''p'' False))) =
   [''/b?location'', ''/b?delimiter=/&max-keys=1000&prefix=p'',
    ''/b?delimiter=/&marker=m&max-keys=1000&prefix=p'']"
    by (simp add: run p2)
  show "fst (listObjects 3 demo_listing_env demo_listing_server demo_client ''b'' ''p'' False) =
     ([''first'', ''second''], Ended)"
    by (simp add: run)
qed

theorem listObjects_max_keys_witness:
  "filter (prefix ''max-keys='') (listObjectsQuery_queries demo_env ''p'' [] ''/'' 5000) =
     [''max-keys=1000''] \<and>
   filter (prefix ''max-keys='') (listObjectsQuery_queries demo_env ''p'' [] ''/'' 0) = [] \<and>
   set (request_paths (new_events demo_client
          (snd (listObjects 3 demo_listing_env demo_listing_server demo_client ''b'' ''p'' False)))) =
     {''/b?location'', ''/b?delimiter=/&max-keys=1000&prefix=p'',
      ''/b?delimiter=/&marker=m&max-keys=1000&prefix=p''} \<and>
   ''b'' \<noteq> [] \<and>
   ro_path (getRequestOptions demo_listing_env demo_client
              (listObjectsQuery_spec demo_listing_env ''b'' ''p'' ''m'' ''/'' 1000)) =
     ''/b?delimiter=/&marker=m&max-keys=1000&prefix=p''"
proof -
  have s: "show_int 1000 = ''1000''"
    by (simp add: show_defs)
  have t0: "trace demo_client = []" "\<not> virtualHostStyle demo_client"
    by (simp_all add: demo_client_def)
  have a: "filter (prefix ''max-keys='') (listObjectsQuery_queries demo_env ''p'' [] ''/'' 5000) =
     [''max-keys=1000'']"
    using listObjects_max_keys [where env = demo_env and pfx = "''p''" and marker = "[]"
        and delimiter = "''/''" and maxKeys = 5000] s
    by simp
  have b: "filter (prefix ''max-keys='') (listObjectsQuery_queries demo_env ''p'' [] ''/'' 0) = []"
    using listObjects_max_keys [where env = demo_env and pfx = "''p''" and marker = "[]"
        and delimiter = "''/''" and maxKeys = 0]
    by simp
  have c: "ro_path (getRequestOptions demo_listing_env demo_client
              (listObjectsQuery_spec demo_listing_env ''b'' ''p'' ''m'' ''/'' 1000)) =
     ''/b?delimiter=/&marker=m&max-keys=1000&prefix=p''"
    using listObjects_max_keys [where env = demo_listing_env and pfx = "''p''" and marker = "''m''"
        and delimiter = "''/''" and b = "''b''" and c = demo_client] t0
    by (simp add: demo_queries)
  have d: "\<forall>p \<in> set (request_paths (new_events demo_client
          (snd (listObjects 3 demo_listing_env demo_listing_server demo_client ''b'' ''p'' False)))).
      p = ''/'' @ ''b'' @ ''?location'' \<or>
      (\<exists>m. p = ro_path (getRequestOptions demo_listing_env demo_client
                     (listObjectsQuery_spec demo_listing_env ''b'' ''p'' m
                        (if False then [] else ''/'') 1000)))"
    using listObjects_max_keys [where env = demo_listing_env and pfx = "''p''"
        and b = "''b''" and c = demo_client and srv = demo_listing_server and pages = 3
        and recursive = False]
    by blast
  show ?thesis
    using a b c d demo_listing_run(1) t0
    by (simp add: new_events_def)
qed

subsection \<open>The entry of the uploads\<close>

lemma putObject_entry:
  assumes "isValidBucketName env (Some b)" and "isValidObjectName env ob" and "0 \<le> sz"
    and "failure stream = None"
  shows "putObject env srv c b ob stream sz ct =
     (if sz \<le> minimumPartSize then
        SinglePut (simpleUploader env srv c b ob
          (if is_blank ct then ''application/octet-stream'' else ct) (data stream)
          (int (length (data stream)))
          (if \<not> anonymous c then sha256_hex env (data stream) else [])
          (md5_base64 env (data stream)))
      else Multipart sz)"
  using assms by (simp add: putObject_def Let_def)

lemma fPutObject_entry:
  assumes "isValidBucketName env (Some b)" and "isValidObjectName env ob"
    and "files filePath = Some contents" and "int (length contents) \<le> maxObjectSize"
  shows "fPutObject env srv c files b ob filePath ct =
     (if int (length contents) < minimumPartSize then
        SinglePut (simpleUploader env srv c b ob
          (if is_blank ct then ''application/octet-stream'' else ct)
          (read_range contents 0 (if contents = [] then 0 else int (length contents) - 1))
          (int (length contents))
          (snd (getHashSummer env (anonymous c)
                  (read_range contents 0 (if contents = [] then 0 else int (length contents) - 1))))
          (fst (getHashSummer env (anonymous c)
                  (read_range contents 0 (if contents = [] then 0 else int (length contents) - 1)))))
      else Multipart (int (length contents)))"
  using assms by (simp add: fPutObject_def Let_def)

text \<open>
  C1 fails on \<open>fPutObject\<close>: \<open>putObject\<close> takes the single PUT for every size up to
  and including \<open>minimumPartSize\<close>, \<open>fPutObject\<close> only for sizes below it. For an object
  of exactly \<open>minimumPartSize\<close> bytes, \<open>putObject\<close> calls the simple uploader and
  \<open>fPutObject\<close> enters the multipart upload; for one byte more both enter it.
\<close>

theorem upload_entry_at_minimumPartSize:
  "putObject_buffer demo_env srv demo_client ''b'' ''o'' (replicate 5242880 (CHR ''x'')) [] =
     SinglePut (simpleUploader demo_env srv demo_client ''b'' ''o'' ''application/octet-stream''
                  (replicate 5242880 (CHR ''x'')) 5242880 (replicate 64 (CHR ''0''))
                  ''1B2M2Y8AsgTpgAmY7PhCfg=='') \<and>
   fPutObject demo_env srv demo_client [''/tmp/f'' \<mapsto> replicate 5242880 (CHR ''x'')]
       ''b'' ''o'' ''/tmp/f'' [] =
     Multipart 5242880 \<and>
   putObject_buffer demo_env srv demo_client ''b'' ''o'' (replicate 5242881 (CHR ''x'')) [] =
     Multipart 5242881 \<and>
   fPutObject demo_env srv demo_client [''/tmp/f'' \<mapsto> replicate 5242881 (CHR ''x'')]
       ''b'' ''o'' ''/tmp/f'' [] =
     Multipart 5242881 \<and>
   minimumPartSize = 5242880"
proof -
  have v: "isValidBucketName demo_env (Some ''b'')" "isValidObjectName demo_env ''o''"
    by (simp_all add: demo_env_def truthy_opt_def)
  have m: "minimumPartSize = 5242880" "(5242880::int) \<le> maxObjectSize" "(5242881::int) \<le> maxObjectSize"
    by (simp_all add: minimumPartSize_def maxObjectSize_def)
  have a: "putObject_buffer demo_env srv demo_client ''b'' ''o'' (replicate 5242880 (CHR ''x'')) [] =
     SinglePut (simpleUploader demo_env srv demo_client ''b'' ''o'' ''application/octet-stream''
                  (replicate 5242880 (CHR ''x'')) 5242880 (replicate 64 (CHR ''0''))
                  ''1B2M2Y8AsgTpgAmY7PhCfg=='')"
    unfolding putObject_buffer_def
    by (subst putObject_entry [OF v])
       (simp_all add: m is_blank_def demo_env_fields demo_client_def)
  have b: "fPutObject demo_env srv demo_client [''/tmp/f'' \<mapsto> replicate 5242880 (CHR ''x'')]
       ''b'' ''o'' ''/tmp/f'' [] = Multipart 5242880"
    by (subst fPutObject_entry [OF v, where contents = "replicate 5242880 (CHR ''x'')"])
       (simp_all add: m)
  have c: "putObject_buffer demo_env srv demo_client ''b'' ''o'' (replicate 5242881 (CHR ''x'')) [] =
     Multipart 5242881"
    unfolding putObject_buffer_def
    by (subst putObject_entry [OF v]) (simp_all add: m)
  have d: "fPutObject demo_env srv demo_client [''/tmp/f'' \<mapsto> replicate 5242881 (CHR ''x'')]
       ''b'' ''o'' ''/tmp/f'' [] = Multipart 5242881"
    by (subst fPutObject_entry [OF v, where contents = "replicate 5242881 (CHR ''x'')"])
       (simp_all add: m)
  from a b c d m(1) show ?thesis
    by blast
qed

end
